theory Spec2Isabelle
  imports Main
begin

section \<open>JavaScript values and objects\<close>

text \<open>
  The server is a Node.js program. The values that travel in the inbound messages, in
  the rows handed back by the database driver and in the outbound payloads are
  JavaScript values. Numbers are modelled as integers (ids, power levels, modifiers);
  NaN and fractions are left out.
\<close>

datatype jsval = JUndefined | JNull | JBool bool | JNum int | JStr string

text \<open>An object is a finite map from property names to values.\<close>

type_synonym jsobj = "string \<rightharpoonup> jsval"

text \<open>Reading a property: a missing key reads as \<open>undefined\<close>.\<close>

definition get_prop :: "jsobj \<Rightarrow> string \<Rightarrow> jsval" where
  "get_prop obj k = (case obj k of None \<Rightarrow> JUndefined | Some v \<Rightarrow> v)"

text \<open>JavaScript truthiness: \<open>undefined\<close>, \<open>null\<close>, \<open>false\<close>, \<open>0\<close> and the empty string are falsy.\<close>

fun truthy :: "jsval \<Rightarrow> bool" where
  "truthy JUndefined = False"
| "truthy JNull = False"
| "truthy (JBool b) = b"
| "truthy (JNum n) = (n \<noteq> 0)"
| "truthy (JStr s) = (s \<noteq> [])"

text \<open>The expression \<open>v || null\<close>.\<close>

definition or_null :: "jsval \<Rightarrow> jsval" where
  "or_null v = (if truthy v then v else JNull)"

text \<open>
  A bound query parameter, as the store keeps it: the driver's client-side escaping
  writes \<open>undefined\<close> as SQL NULL and a boolean as the keyword \<open>true\<close> or \<open>false\<close>,
  which a column keeps as 1 or 0; every other value is kept as it is.
\<close>

fun sql_param :: "jsval \<Rightarrow> jsval" where
  "sql_param JUndefined = JNull"
| "sql_param (JBool b) = JNum (if b then 1 else 0)"
| "sql_param v = v"

text \<open>Decimal digits of a natural number, for template literals.\<close>

fun string_of_nat :: "nat \<Rightarrow> string" where
  "string_of_nat n =
     (if n < 10 then [char_of (48 + n)]
      else string_of_nat (n div 10) @ [char_of (48 + n mod 10)])"

text \<open>
  String conversion inside a template literal \<open>`${v}`\<close>. A number is printed with all
  its decimal digits, as JavaScript does below \<open>10^21\<close>; the exponent form of larger
  magnitudes is left out.
\<close>

fun js_string :: "jsval \<Rightarrow> string" where
  "js_string JUndefined = ''undefined''"
| "js_string JNull = ''null''"
| "js_string (JBool b) = (if b then ''true'' else ''false'')"
| "js_string (JNum n) =
     (if n < 0 then CHR ''-'' # string_of_nat (nat (- n)) else string_of_nat (nat n))"
| "js_string (JStr s) = s"

section \<open>The relational store\<close>

text \<open>
  Six tables. The schema itself is not part of the sources; the columns are the ones
  the queries name. Every table with a generated key carries its AUTO\_INCREMENT
  counter, which an insert hands out as \<open>insertId\<close> and advances.
\<close>

record user_row =
  u_user_id :: nat
  u_username :: string

record session_row =
  s_session_id :: nat
  s_gm_user_id :: nat
  s_session_name :: string

text \<open>
  A row of \<open>cards\<close>: the generated key and the columns of the INSERT statement, paired
  with the values bound to them.
\<close>

record card_row =
  c_card_id :: nat
  c_cols :: "(string \<times> jsval) list"

record player_card_row =
  pc_player_card_id :: nat
  pc_user_id :: nat
  pc_card_id :: nat
  pc_session_id :: nat
  pc_location :: string
  pc_slot_id :: "nat option"
  pc_is_active :: bool

record log_row =
  l_log_id :: nat
  l_session_id :: nat
  l_user_id :: nat
  l_card_id :: nat
  l_action_type :: string
  l_action_description :: string
  l_action_timestamp :: nat

record player_session_row =
  ps_user_id :: nat
  ps_session_id :: nat

record db =
  users :: "user_row list"
  next_user_id :: nat
  game_sessions :: "session_row list"
  next_session_id :: nat
  cards :: "card_row list"
  next_card_id :: nat
  player_cards :: "player_card_row list"
  next_player_card_id :: nat
  combat_log :: "log_row list"
  next_log_id :: nat
  player_sessions :: "player_session_row list"

definition empty_db :: db where
  "empty_db = \<lparr> users = [], next_user_id = 1, game_sessions = [], next_session_id = 1,
      cards = [], next_card_id = 1, player_cards = [], next_player_card_id = 1,
      combat_log = [], next_log_id = 1, player_sessions = [] \<rparr>"

text \<open>
  Modelled from the spec: the column default of \<open>player_cards.is_active\<close>, which the
  INSERT of the create-card handler leaves to the (absent) schema. The spec has a new
  instance start inactive.
\<close>

definition player_cards_is_active_default :: bool where
  "player_cards_is_active_default = False"

subsection \<open>Rows as the driver returns them\<close>

text \<open>A boolean column comes back as the number 1 or 0.\<close>

definition flag_val :: "bool \<Rightarrow> jsval" where
  "flag_val b = JNum (if b then 1 else 0)"

definition slot_val :: "nat option \<Rightarrow> jsval" where
  "slot_val s = (case s of None \<Rightarrow> JNull | Some n \<Rightarrow> JNum (int n))"

definition player_card_obj :: "player_card_row \<Rightarrow> jsobj" where
  "player_card_obj pc =
     [''player_card_id'' \<mapsto> JNum (int (pc_player_card_id pc)),
      ''user_id'' \<mapsto> JNum (int (pc_user_id pc)),
      ''card_id'' \<mapsto> JNum (int (pc_card_id pc)),
      ''session_id'' \<mapsto> JNum (int (pc_session_id pc)),
      ''location'' \<mapsto> JStr (pc_location pc),
      ''slot_id'' \<mapsto> slot_val (pc_slot_id pc),
      ''is_active'' \<mapsto> flag_val (pc_is_active pc)]"

definition card_obj :: "card_row \<Rightarrow> jsobj" where
  "card_obj c = (map_of (c_cols c))(''card_id'' \<mapsto> JNum (int (c_card_id c)))"

text \<open>
  \<open>SELECT pc.*, c.* FROM player_cards pc JOIN cards c ON pc.card_id = c.card_id\<close>:
  one object per matching pair. Where both tables have a column of the same name
  (\<open>card_id\<close>, \<open>is_active\<close>) the driver keeps the later one, that of \<open>cards\<close>.
\<close>

definition joined_obj :: "player_card_row \<times> card_row \<Rightarrow> jsobj" where
  "joined_obj r = player_card_obj (fst r) ++ card_obj (snd r)"

definition join_cards :: "db \<Rightarrow> player_card_row list \<Rightarrow> (player_card_row \<times> card_row) list" where
  "join_cards d pcs =
     concat (map (\<lambda>pc. map (\<lambda>c. (pc, c)) (filter (\<lambda>c. c_card_id c = pc_card_id pc) (cards d))) pcs)"

section \<open>Sockets, rooms and outbound events\<close>

type_synonym socket_id = nat

type_synonym rooms = "nat \<Rightarrow> socket_id set"

text \<open>
  \<open>socket.emit\<close> addresses the connection itself, \<open>io.to(room).emit\<close> every member of
  the room, \<open>socket.to(room).emit\<close> every member of the room but the sender.
\<close>

datatype target = ToSocket socket_id | ToRoom nat | ToRoomExcept nat socket_id

record game_state =
  gs_sessionId :: nat
  gs_sessionName :: string
  gs_players :: "(string \<times> string) list"
  gs_allCardDefinitions :: "jsobj list"
  gs_cards :: "jsobj list"
  gs_combatLog :: "jsobj list"

datatype payload =
    ErrorMsg string
  | GameState game_state
  | PlayerJoined string string
  | CardObj jsobj

datatype emission = Emit target string payload

fun recipients :: "rooms \<Rightarrow> emission \<Rightarrow> socket_id set" where
  "recipients rs (Emit (ToSocket s) e p) = {s}"
| "recipients rs (Emit (ToRoom r) e p) = rs r"
| "recipients rs (Emit (ToRoomExcept r s) e p) = rs r - {s}"

fun event_name :: "emission \<Rightarrow> string" where
  "event_name (Emit t e p) = e"

fun event_payload :: "emission \<Rightarrow> payload" where
  "event_payload (Emit t e p) = p"

section \<open>Statements shared by the handlers\<close>

text \<open>
  Identity resolution, as the join-game and create-card handlers write it:
  \<open>SELECT user_id FROM users WHERE username = ?\<close>; on an empty result
  \<open>INSERT INTO users (username) VALUES (?)\<close> and the generated id, otherwise the id of
  the first row found.
\<close>

definition resolve_user :: "db \<Rightarrow> string \<Rightarrow> nat \<times> db" where
  "resolve_user d userId =
     (case filter (\<lambda>u. u_username u = userId) (users d) of
        [] \<Rightarrow> (next_user_id d,
               d\<lparr>users := users d @ [\<lparr>u_user_id = next_user_id d, u_username = userId\<rparr>],
                 next_user_id := Suc (next_user_id d)\<rparr>)
      | u # _ \<Rightarrow> (u_user_id u, d))"

text \<open>
  The lookup of the move-card and play-card-action handlers:
  \<open>users[0]?.user_id\<close>, which is \<open>undefined\<close> on an empty result.
\<close>

definition lookup_user :: "db \<Rightarrow> string \<Rightarrow> nat option" where
  "lookup_user d userId =
     (case filter (\<lambda>u. u_username u = userId) (users d) of
        [] \<Rightarrow> None
      | u # _ \<Rightarrow> Some (u_user_id u))"

text \<open>
  \<open>UPDATE player_cards SET location = ?, slot_id = ?, is_active = ?
    WHERE player_card_id = ? AND user_id = ? AND session_id = ?\<close>.
  The result is the store afterwards and \<open>affectedRows\<close>; the driver connects with the
  found-rows flag, so that is the number of rows the WHERE clause matched.
\<close>

definition instance_matches :: "nat \<Rightarrow> nat \<Rightarrow> nat \<Rightarrow> player_card_row \<Rightarrow> bool" where
  "instance_matches playerCardId user_id sessionId pc \<longleftrightarrow>
     pc_player_card_id pc = playerCardId \<and> pc_user_id pc = user_id \<and> pc_session_id pc = sessionId"

definition update_player_cards ::
  "db \<Rightarrow> string \<Rightarrow> nat option \<Rightarrow> bool \<Rightarrow> nat \<Rightarrow> nat \<Rightarrow> nat \<Rightarrow> db \<times> nat" where
  "update_player_cards d loc slot act playerCardId user_id sessionId =
     (d\<lparr>player_cards :=
          map (\<lambda>pc. if instance_matches playerCardId user_id sessionId pc
                    then pc\<lparr>pc_location := loc, pc_slot_id := slot, pc_is_active := act\<rparr>
                    else pc) (player_cards d)\<rparr>,
      length (filter (instance_matches playerCardId user_id sessionId) (player_cards d)))"

text \<open>
  \<open>INSERT INTO combat_log (session_id, user_id, card_id, action_type, action_description)\<close>;
  the timestamp column takes the store's clock reading \<open>now\<close>.
\<close>

definition insert_log :: "db \<Rightarrow> nat \<Rightarrow> nat \<Rightarrow> nat \<Rightarrow> nat \<Rightarrow> string \<Rightarrow> string \<Rightarrow> db" where
  "insert_log d now sessionId user_id cardId atype adesc =
     d\<lparr>combat_log := combat_log d @
          [\<lparr>l_log_id = next_log_id d, l_session_id = sessionId, l_user_id = user_id,
            l_card_id = cardId, l_action_type = atype, l_action_description = adesc,
            l_action_timestamp = now\<rparr>],
       next_log_id := Suc (next_log_id d)\<rparr>"

text \<open>
  \<open>SELECT pc.*, c.* FROM player_cards pc JOIN cards c ON pc.card_id = c.card_id
    WHERE pc.player_card_id = ?\<close>.
\<close>

definition refetch_instance :: "db \<Rightarrow> nat \<Rightarrow> (player_card_row \<times> card_row) list" where
  "refetch_instance d playerCardId =
     join_cards d (filter (\<lambda>pc. pc_player_card_id pc = playerCardId) (player_cards d))"

section \<open>The join-game handler\<close>

definition card_definition_entry :: "jsobj \<Rightarrow> jsobj" where
  "card_definition_entry c =
     [''card_id'' \<mapsto> get_prop c ''card_id'',
      ''card_name'' \<mapsto> get_prop c ''card_name'',
      ''card_type'' \<mapsto> get_prop c ''card_type'',
      ''description'' \<mapsto> get_prop c ''description'',
      ''power_level'' \<mapsto> get_prop c ''power_level'']"

definition snapshot_card :: "jsobj \<Rightarrow> jsobj" where
  "snapshot_card pc =
     [''card_id'' \<mapsto> get_prop pc ''card_id'',
      ''player_card_id'' \<mapsto> get_prop pc ''player_card_id'',
      ''ownerId'' \<mapsto> get_prop pc ''user_id'',
      ''location'' \<mapsto> get_prop pc ''location'',
      ''slot_id'' \<mapsto> get_prop pc ''slot_id'',
      ''is_active'' \<mapsto> get_prop pc ''is_active'',
      ''card_name'' \<mapsto> get_prop pc ''card_name'',
      ''card_type'' \<mapsto> get_prop pc ''card_type'',
      ''description'' \<mapsto> get_prop pc ''description'',
      ''power_level'' \<mapsto> get_prop pc ''power_level'',
      ''card_hero_type'' \<mapsto> get_prop pc ''card_hero_type'',
      ''card_hero_class'' \<mapsto> get_prop pc ''card_hero_class'',
      ''card_hero_role'' \<mapsto> get_prop pc ''card_hero_role'',
      ''card_ability_class_melee'' \<mapsto> get_prop pc ''card_ability_class_melee'',
      ''card_ability_class_longrange'' \<mapsto> get_prop pc ''card_ability_class_longrange'',
      ''card_ability_class_areaofeffect'' \<mapsto> get_prop pc ''card_ability_class_areaofeffect'',
      ''card_ability_class_duration'' \<mapsto> get_prop pc ''card_ability_class_duration'',
      ''card_ability_is_burst'' \<mapsto> get_prop pc ''card_ability_is_burst'',
      ''card_ability_burst_link_action'' \<mapsto> get_prop pc ''card_ability_burst_link_action'',
      ''card_ability_burst_effect'' \<mapsto> get_prop pc ''card_ability_burst_effect'',
      ''card_suit_might_modifier'' \<mapsto> get_prop pc ''card_suit_might_modifier'',
      ''card_suit_agility_modifier'' \<mapsto> get_prop pc ''card_suit_agility_modifier'',
      ''card_suit_guts_modifier'' \<mapsto> get_prop pc ''card_suit_guts_modifier'',
      ''card_suit_intellect_modifier'' \<mapsto> get_prop pc ''card_intellect_modifier'',
      ''card_suit_rally_modifier'' \<mapsto> get_prop pc ''card_rally_modifier'',
      ''card_weapon_damage'' \<mapsto> get_prop pc ''card_weapon_damage'',
      ''card_weapon_range'' \<mapsto> get_prop pc ''card_weapon_range'',
      ''card_weapon_effect_slot1'' \<mapsto> get_prop pc ''card_weapon_effect_slot1'',
      ''card_weapon_effect_slot2'' \<mapsto> get_prop pc ''card_weapon_effect_slot2'',
      ''card_weapon_effect_slot3'' \<mapsto> get_prop pc ''card_weapon_effect_slot3'']"

definition log_obj :: "log_row \<Rightarrow> jsobj" where
  "log_obj l =
     [''log_id'' \<mapsto> JNum (int (l_log_id l)),
      ''session_id'' \<mapsto> JNum (int (l_session_id l)),
      ''user_id'' \<mapsto> JNum (int (l_user_id l)),
      ''card_id'' \<mapsto> JNum (int (l_card_id l)),
      ''action_type'' \<mapsto> JStr (l_action_type l),
      ''action_description'' \<mapsto> JStr (l_action_description l),
      ''action_timestamp'' \<mapsto> JNum (int (l_action_timestamp l))]"

definition snapshot_log :: "jsobj \<Rightarrow> jsobj" where
  "snapshot_log l =
     [''logId'' \<mapsto> get_prop l ''log_id'',
      ''userId'' \<mapsto> get_prop l ''user_id'',
      ''cardId'' \<mapsto> get_prop l ''card_id'',
      ''actionType'' \<mapsto> get_prop l ''action_type'',
      ''actionDescription'' \<mapsto> get_prop l ''action_description'',
      ''timestamp'' \<mapsto> get_prop l ''action_timestamp'']"

text \<open>
  Step 2 of the handler: the session's numeric id by name, created with the joining
  user as game-master when the name is unseen.
\<close>

definition resolve_session :: "db \<Rightarrow> nat \<Rightarrow> string \<Rightarrow> nat \<times> db" where
  "resolve_session d user_id sessionName =
     (case filter (\<lambda>s. s_session_name s = sessionName) (game_sessions d) of
        [] \<Rightarrow> (next_session_id d,
               d\<lparr>game_sessions := game_sessions d @
                    [\<lparr>s_session_id = next_session_id d, s_gm_user_id = user_id,
                      s_session_name = sessionName\<rparr>],
                 next_session_id := Suc (next_session_id d)\<rparr>)
      | s # _ \<Rightarrow> (s_session_id s, d))"

text \<open>
  Step 4: the three queries and the snapshot object. \<open>ORDER BY\<close> is a stable sort
  on the key; \<open>LIMIT 50\<close> keeps the first fifty rows.
\<close>

definition build_game_state :: "db \<Rightarrow> nat \<Rightarrow> string \<Rightarrow> string \<Rightarrow> game_state" where
  "build_game_state d numerical_session_id sessionName userId =
     (let allCardDefinitions = take 50 (sort_key c_card_id (cards d));
          sessionPlayerCards =
            join_cards d (filter (\<lambda>pc. pc_session_id pc = numerical_session_id) (player_cards d));
          combatLogEntries =
            sort_key l_action_timestamp
              (filter (\<lambda>l. l_session_id l = numerical_session_id) (combat_log d))
      in \<lparr> gs_sessionId = numerical_session_id,
           gs_sessionName = sessionName,
           gs_players = [(userId, ''TestUser'')],
           gs_allCardDefinitions = map (card_definition_entry \<circ> card_obj) allCardDefinitions,
           gs_cards = map (snapshot_card \<circ> joined_obj) sessionPlayerCards,
           gs_combatLog = map (snapshot_log \<circ> log_obj) combatLogEntries \<rparr>)"

definition joinGame :: "db \<Rightarrow> rooms \<Rightarrow> socket_id \<Rightarrow> string \<Rightarrow> string \<Rightarrow> db \<times> rooms \<times> emission list" where
  "joinGame d rs sock sessionName userId =
     (let (user_id, d1) = resolve_user d userId;
          (numerical_session_id, d2) = resolve_session d1 user_id sessionName;
          rs' = rs(numerical_session_id := insert sock (rs numerical_session_id));
          gameState = build_game_state d2 numerical_session_id sessionName userId;
          out = [Emit (ToSocket sock) ''server:gameState'' (GameState gameState),
                 Emit (ToRoomExcept numerical_session_id sock) ''server:playerJoined''
                   (PlayerJoined userId ''TestUser'')];
          playerSessions =
            filter (\<lambda>p. ps_user_id p = user_id \<and> ps_session_id p = numerical_session_id)
              (player_sessions d2);
          d3 = (if playerSessions = []
                then d2\<lparr>player_sessions := player_sessions d2 @
                          [\<lparr>ps_user_id = user_id, ps_session_id = numerical_session_id\<rparr>]\<rparr>
                else d2)
      in (d3, rs', out))"

section \<open>The create-card handler\<close>

text \<open>The column list of \<open>INSERT INTO cards (...)\<close>, in the statement's order.\<close>

definition common_columns :: "string list" where
  "common_columns =
     [''card_name'', ''card_type'', ''description'', ''is_active'', ''power_level'']"

definition optional_columns :: "string list" where
  "optional_columns =
     [''card_hero_type'', ''card_hero_class'', ''card_hero_role'',
      ''card_ability_class_melee'', ''card_ability_class_longrange'',
      ''card_ability_class_areaofeffect'', ''card_ability_class_duration'',
      ''card_ability_is_burst'', ''card_ability_burst_link_action'', ''card_ability_burst_effect'',
      ''card_suit_might_modifier'', ''card_suit_agility_modifier'', ''card_suit_guts_modifier'',
      ''card_suit_intellect_modifier'', ''card_suit_rally_modifier'',
      ''card_weapon_damage'', ''card_weapon_range'', ''card_weapon_effect_slot1'',
      ''card_weapon_effect_slot2'', ''card_weapon_effect_slot3'']"

definition cards_insert_columns :: "string list" where
  "cards_insert_columns = common_columns @ optional_columns"

text \<open>
  The parameter array of the handler in the full server file: the five common fields
  as they come, every other field through \<open>|| null\<close>. The two values bound to
  \<open>card_suit_intellect_modifier\<close> and \<open>card_suit_rally_modifier\<close> are read from
  \<open>cardData.card_intellect_modifier\<close> and \<open>cardData.card_rally_modifier\<close>.
\<close>

definition card_insert_values :: "jsobj \<Rightarrow> jsval list" where
  "card_insert_values cardData =
     [get_prop cardData ''card_name'', get_prop cardData ''card_type'',
      get_prop cardData ''description'', get_prop cardData ''is_active'',
      get_prop cardData ''power_level'',
      or_null (get_prop cardData ''card_hero_type''),
      or_null (get_prop cardData ''card_hero_class''),
      or_null (get_prop cardData ''card_hero_role''),
      or_null (get_prop cardData ''card_ability_class_melee''),
      or_null (get_prop cardData ''card_ability_class_longrange''),
      or_null (get_prop cardData ''card_ability_class_areaofeffect''),
      or_null (get_prop cardData ''card_ability_class_duration''),
      or_null (get_prop cardData ''card_ability_is_burst''),
      or_null (get_prop cardData ''card_ability_burst_link_action''),
      or_null (get_prop cardData ''card_ability_burst_effect''),
      or_null (get_prop cardData ''card_suit_might_modifier''),
      or_null (get_prop cardData ''card_suit_agility_modifier''),
      or_null (get_prop cardData ''card_suit_guts_modifier''),
      or_null (get_prop cardData ''card_intellect_modifier''),
      or_null (get_prop cardData ''card_rally_modifier''),
      or_null (get_prop cardData ''card_weapon_damage''),
      or_null (get_prop cardData ''card_weapon_range''),
      or_null (get_prop cardData ''card_weapon_effect_slot1''),
      or_null (get_prop cardData ''card_weapon_effect_slot2''),
      or_null (get_prop cardData ''card_weapon_effect_slot3'')]"

text \<open>
  The parameter array of the handler in \<open>src/server/index.js\<close>: the same, with every
  value read under its column's own name.
\<close>

definition card_insert_values_index :: "jsobj \<Rightarrow> jsval list" where
  "card_insert_values_index cardData =
     [get_prop cardData ''card_name'', get_prop cardData ''card_type'',
      get_prop cardData ''description'', get_prop cardData ''is_active'',
      get_prop cardData ''power_level'',
      or_null (get_prop cardData ''card_hero_type''),
      or_null (get_prop cardData ''card_hero_class''),
      or_null (get_prop cardData ''card_hero_role''),
      or_null (get_prop cardData ''card_ability_class_melee''),
      or_null (get_prop cardData ''card_ability_class_longrange''),
      or_null (get_prop cardData ''card_ability_class_areaofeffect''),
      or_null (get_prop cardData ''card_ability_class_duration''),
      or_null (get_prop cardData ''card_ability_is_burst''),
      or_null (get_prop cardData ''card_ability_burst_link_action''),
      or_null (get_prop cardData ''card_ability_burst_effect''),
      or_null (get_prop cardData ''card_suit_might_modifier''),
      or_null (get_prop cardData ''card_suit_agility_modifier''),
      or_null (get_prop cardData ''card_suit_guts_modifier''),
      or_null (get_prop cardData ''card_suit_intellect_modifier''),
      or_null (get_prop cardData ''card_suit_rally_modifier''),
      or_null (get_prop cardData ''card_weapon_damage''),
      or_null (get_prop cardData ''card_weapon_range''),
      or_null (get_prop cardData ''card_weapon_effect_slot1''),
      or_null (get_prop cardData ''card_weapon_effect_slot2''),
      or_null (get_prop cardData ''card_weapon_effect_slot3'')]"

definition insert_card :: "db \<Rightarrow> jsval list \<Rightarrow> nat \<times> db" where
  "insert_card d vals =
     (next_card_id d,
      d\<lparr>cards := cards d @
           [\<lparr>c_card_id = next_card_id d,
             c_cols = zip cards_insert_columns (map sql_param vals)\<rparr>],
        next_card_id := Suc (next_card_id d)\<rparr>)"

text \<open>
  \<open>INSERT INTO player_cards (user_id, card_id, session_id, location, slot_id)\<close>;
  \<open>is_active\<close> is not among the columns and takes its default.
\<close>

definition insert_player_card :: "db \<Rightarrow> nat \<Rightarrow> nat \<Rightarrow> nat \<Rightarrow> string \<Rightarrow> nat option \<Rightarrow> nat \<times> db" where
  "insert_player_card d user_id cardId sessionId loc slot =
     (next_player_card_id d,
      d\<lparr>player_cards := player_cards d @
           [\<lparr>pc_player_card_id = next_player_card_id d, pc_user_id = user_id,
             pc_card_id = cardId, pc_session_id = sessionId, pc_location = loc,
             pc_slot_id = slot, pc_is_active = player_cards_is_active_default\<rparr>],
        next_player_card_id := Suc (next_player_card_id d)\<rparr>)"

definition created_description :: "string \<Rightarrow> jsobj \<Rightarrow> string" where
  "created_description userId cardData =
     userId @ '' created card \"'' @ js_string (get_prop cardData ''card_name'') @ ''\"''"

text \<open>The handler of the full server file. The spread \<open>...cardData\<close> comes last in
  the object literal, so a key of \<open>cardData\<close> replaces a literal key of the same name.\<close>

definition createCard :: "db \<Rightarrow> nat \<Rightarrow> nat \<Rightarrow> string \<Rightarrow> jsobj \<Rightarrow> db \<times> emission list" where
  "createCard d now numerical_session_id userId cardData =
     (let (user_id, d1) = resolve_user d userId;
          (newCardId, d2) = insert_card d1 (card_insert_values cardData);
          (playerCardId, d3) =
            insert_player_card d2 user_id newCardId numerical_session_id ''CreatedCardStorage'' None;
          fullNewCard =
            [''card_id'' \<mapsto> JNum (int newCardId),
             ''player_card_id'' \<mapsto> JNum (int playerCardId),
             ''ownerId'' \<mapsto> JStr userId,
             ''location'' \<mapsto> JStr ''CreatedCardStorage'',
             ''slot_id'' \<mapsto> JNull,
             ''is_active'' \<mapsto> JBool False] ++ cardData;
          d4 = insert_log d3 now numerical_session_id user_id newCardId ''Card Created''
                 (created_description userId cardData)
      in (d4, [Emit (ToRoom numerical_session_id) ''server:cardCreated'' (CardObj fullNewCard)]))"

text \<open>The handler of \<open>src/server/index.js\<close>.\<close>

definition createCard_index :: "db \<Rightarrow> nat \<Rightarrow> nat \<Rightarrow> string \<Rightarrow> jsobj \<Rightarrow> db \<times> emission list" where
  "createCard_index d now sessionId userId cardData =
     (let (user_id, d1) = resolve_user d userId;
          (newCardId, d2) = insert_card d1 (card_insert_values_index cardData);
          (playerCardId, d3) =
            insert_player_card d2 user_id newCardId sessionId ''CreatedCardStorage'' None;
          fullNewCard =
            [''card_id'' \<mapsto> JNum (int newCardId),
             ''ownerId'' \<mapsto> JStr userId,
             ''location'' \<mapsto> JStr ''CreatedCardStorage'',
             ''slot_id'' \<mapsto> JNull] ++ cardData;
          d4 = insert_log d3 now sessionId user_id newCardId ''Card Created''
                 (created_description userId cardData)
      in (d4, [Emit (ToRoom sessionId) ''server:cardCreated'' (CardObj fullNewCard)]))"

section \<open>The move-card and play-card-action handlers\<close>

definition moved_card_data :: "jsobj \<Rightarrow> string \<Rightarrow> string \<Rightarrow> jsobj" where
  "moved_card_data row userId oldLocation =
     [''card_id'' \<mapsto> get_prop row ''card_id'',
      ''player_card_id'' \<mapsto> get_prop row ''player_card_id'',
      ''ownerId'' \<mapsto> JStr userId,
      ''location'' \<mapsto> get_prop row ''location'',
      ''slot_id'' \<mapsto> get_prop row ''slot_id'',
      ''is_active'' \<mapsto> get_prop row ''is_active'',
      ''card_name'' \<mapsto> get_prop row ''card_name'',
      ''card_type'' \<mapsto> get_prop row ''card_type'',
      ''description'' \<mapsto> get_prop row ''description'',
      ''power_level'' \<mapsto> get_prop row ''power_level'',
      ''card_hero_type'' \<mapsto> get_prop row ''card_hero_type'',
      ''card_hero_class'' \<mapsto> get_prop row ''card_hero_class'',
      ''card_hero_role'' \<mapsto> get_prop row ''card_hero_role'',
      ''card_ability_class_melee'' \<mapsto> get_prop row ''card_ability_class_melee'',
      ''card_ability_class_longrange'' \<mapsto> get_prop row ''card_ability_class_longrange'',
      ''card_ability_class_areaofeffect'' \<mapsto> get_prop row ''card_ability_class_areaofeffect'',
      ''card_ability_class_duration'' \<mapsto> get_prop row ''card_ability_class_duration'',
      ''card_ability_is_burst'' \<mapsto> get_prop row ''card_ability_is_burst'',
      ''card_ability_burst_link_action'' \<mapsto> get_prop row ''card_ability_burst_link_action'',
      ''card_ability_burst_effect'' \<mapsto> get_prop row ''card_ability_burst_effect'',
      ''card_suit_might_modifier'' \<mapsto> get_prop row ''card_suit_might_modifier'',
      ''card_suit_agility_modifier'' \<mapsto> get_prop row ''card_suit_agility_modifier'',
      ''card_suit_guts_modifier'' \<mapsto> get_prop row ''card_guts_modifier'',
      ''card_suit_intellect_modifier'' \<mapsto> get_prop row ''card_intellect_modifier'',
      ''card_suit_rally_modifier'' \<mapsto> get_prop row ''card_rally_modifier'',
      ''card_weapon_damage'' \<mapsto> get_prop row ''card_weapon_damage'',
      ''card_weapon_range'' \<mapsto> get_prop row ''card_weapon_range'',
      ''card_weapon_effect_slot1'' \<mapsto> get_prop row ''card_weapon_effect_slot1'',
      ''card_weapon_effect_slot2'' \<mapsto> get_prop row ''card_weapon_effect_slot2'',
      ''card_weapon_effect_slot3'' \<mapsto> get_prop row ''card_weapon_effect_slot3'',
      ''oldLocation'' \<mapsto> JStr oldLocation]"

definition played_card_data :: "jsobj \<Rightarrow> string \<Rightarrow> string \<Rightarrow> jsobj" where
  "played_card_data row userId oldLocation =
     [''card_id'' \<mapsto> get_prop row ''card_id'',
      ''player_card_id'' \<mapsto> get_prop row ''player_card_id'',
      ''ownerId'' \<mapsto> JStr userId,
      ''location'' \<mapsto> get_prop row ''location'',
      ''slot_id'' \<mapsto> get_prop row ''slot_id'',
      ''is_active'' \<mapsto> get_prop row ''is_active'',
      ''card_name'' \<mapsto> get_prop row ''card_name'',
      ''card_type'' \<mapsto> get_prop row ''card_type'',
      ''description'' \<mapsto> get_prop row ''description'',
      ''power_level'' \<mapsto> get_prop row ''power_level'',
      ''card_hero_type'' \<mapsto> get_prop row ''card_hero_type'',
      ''card_hero_class'' \<mapsto> get_prop row ''card_hero_class'',
      ''card_hero_role'' \<mapsto> get_prop row ''card_hero_role'',
      ''card_ability_class_melee'' \<mapsto> get_prop row ''card_ability_class_melee'',
      ''card_ability_class_longrange'' \<mapsto> get_prop row ''card_ability_class_longrange'',
      ''card_ability_class_areaofeffect'' \<mapsto> get_prop row ''card_ability_class_areaofeffect'',
      ''card_ability_class_duration'' \<mapsto> get_prop row ''card_ability_class_duration'',
      ''card_ability_is_burst'' \<mapsto> get_prop row ''card_ability_is_burst'',
      ''card_ability_burst_link_action'' \<mapsto> get_prop row ''card_ability_burst_link_action'',
      ''card_ability_burst_effect'' \<mapsto> get_prop row ''card_ability_burst_effect'',
      ''card_suit_might_modifier'' \<mapsto> get_prop row ''card_suit_might_modifier'',
      ''card_suit_agility_modifier'' \<mapsto> get_prop row ''card_agility_modifier'',
      ''card_suit_guts_modifier'' \<mapsto> get_prop row ''card_guts_modifier'',
      ''card_suit_intellect_modifier'' \<mapsto> get_prop row ''card_intellect_modifier'',
      ''card_suit_rally_modifier'' \<mapsto> get_prop row ''card_rally_modifier'',
      ''card_weapon_damage'' \<mapsto> get_prop row ''card_weapon_damage'',
      ''card_weapon_range'' \<mapsto> get_prop row ''card_weapon_range'',
      ''card_weapon_effect_slot1'' \<mapsto> get_prop row ''card_weapon_effect_slot1'',
      ''card_weapon_effect_slot2'' \<mapsto> get_prop row ''card_weapon_effect_slot2'',
      ''card_weapon_effect_slot3'' \<mapsto> get_prop row ''card_weapon_effect_slot3'',
      ''oldLocation'' \<mapsto> JStr oldLocation]"

record move_request =
  mv_sessionId :: nat
  mv_userId :: string
  mv_playerCardId :: nat
  mv_oldLocation :: string
  mv_destinationLocation :: string
  mv_destinationSlotId :: "nat option"
  mv_isActive :: bool

record play_request =
  pl_sessionId :: nat
  pl_userId :: string
  pl_playerCardId :: nat
  pl_oldLocation :: string

text \<open>
  \<open>!user_id\<close> holds when the lookup gave nothing and also when the id found is 0.
  The log row's \<open>card_id\<close> is that of the refetched row, which is the key of its
  \<open>cards\<close> row.
\<close>

definition moveCard :: "db \<Rightarrow> nat \<Rightarrow> socket_id \<Rightarrow> move_request \<Rightarrow> db \<times> emission list" where
  "moveCard d now sock rq =
     (case lookup_user d (mv_userId rq) of
        None \<Rightarrow> (d, [Emit (ToSocket sock) ''error'' (ErrorMsg ''User not authenticated for card move.'')])
      | Some user_id \<Rightarrow>
          if user_id = 0
          then (d, [Emit (ToSocket sock) ''error'' (ErrorMsg ''User not authenticated for card move.'')])
          else
            let (d1, affectedRows) =
                  update_player_cards d (mv_destinationLocation rq) (mv_destinationSlotId rq)
                    (mv_isActive rq) (mv_playerCardId rq) user_id (mv_sessionId rq)
            in if affectedRows = 0
               then (d1, [Emit (ToSocket sock) ''error''
                            (ErrorMsg ''Failed to move card (card not found or permission denied).'')])
               else
                 (case refetch_instance d1 (mv_playerCardId rq) of
                    [] \<Rightarrow> (d1, [Emit (ToSocket sock) ''error''
                                  (ErrorMsg ''Failed to retrieve moved card data.'')])
                  | r # _ \<Rightarrow>
                      let updatedCardData =
                            moved_card_data (joined_obj r) (mv_userId rq) (mv_oldLocation rq);
                          d2 = insert_log d1 now (mv_sessionId rq) user_id (c_card_id (snd r))
                                 ''Card Moved''
                                 (mv_userId rq @ '' moved card \"'' @
                                  js_string (get_prop updatedCardData ''card_name'') @
                                  ''\" from '' @ mv_oldLocation rq @ '' to '' @
                                  mv_destinationLocation rq)
                      in (d2, [Emit (ToRoom (mv_sessionId rq)) ''server:cardMoved''
                                 (CardObj updatedCardData)])))"

definition playCardAction :: "db \<Rightarrow> nat \<Rightarrow> socket_id \<Rightarrow> play_request \<Rightarrow> db \<times> emission list" where
  "playCardAction d now sock rq =
     (case lookup_user d (pl_userId rq) of
        None \<Rightarrow> (d, [Emit (ToSocket sock) ''error'' (ErrorMsg ''User not authenticated for playing card.'')])
      | Some user_id \<Rightarrow>
          if user_id = 0
          then (d, [Emit (ToSocket sock) ''error'' (ErrorMsg ''User not authenticated for playing card.'')])
          else
            let (d1, affectedRows) =
                  update_player_cards d ''DiscardPile'' None False
                    (pl_playerCardId rq) user_id (pl_sessionId rq)
            in if affectedRows = 0
               then (d1, [Emit (ToSocket sock) ''error''
                            (ErrorMsg ''Failed to play card (card not found or permission denied).'')])
               else
                 (case refetch_instance d1 (pl_playerCardId rq) of
                    [] \<Rightarrow> (d1, [Emit (ToSocket sock) ''error''
                                  (ErrorMsg ''Failed to retrieve played card data.'')])
                  | r # _ \<Rightarrow>
                      let playedCardData =
                            played_card_data (joined_obj r) (pl_userId rq) (pl_oldLocation rq);
                          d2 = insert_log d1 now (pl_sessionId rq) user_id (c_card_id (snd r))
                                 ''Card Played''
                                 (pl_userId rq @ '' played card \"'' @
                                  js_string (get_prop playedCardData ''card_name'') @
                                  ''\" from '' @ pl_oldLocation rq @ '' to DiscardPile'')
                      in (d2, [Emit (ToRoom (pl_sessionId rq)) ''server:cardPlayed''
                                 (CardObj playedCardData)])))"

section \<open>Reading the outbound events\<close>

text \<open>The events a connection receives from a list of emissions, by name.\<close>

definition delivered :: "rooms \<Rightarrow> emission list \<Rightarrow> socket_id \<Rightarrow> string list" where
  "delivered rs out s = map event_name (filter (\<lambda>e. s \<in> recipients rs e) out)"

text \<open>A field of the card object carried by a handler's single broadcast.\<close>

definition card_payload_field :: "emission list \<Rightarrow> string \<Rightarrow> jsval option" where
  "card_payload_field out k =
     (case out of
        [Emit t e (CardObj p)] \<Rightarrow> Some (get_prop p k)
      | _ \<Rightarrow> None)"

text \<open>The session id and the instance list of the snapshot a join emits first.\<close>

definition snapshot_of :: "emission list \<Rightarrow> game_state option" where
  "snapshot_of out =
     (case out of
        Emit t e (GameState g) # _ \<Rightarrow> Some g
      | _ \<Rightarrow> None)"

text \<open>A column of a persisted \<open>cards\<close> row.\<close>

definition card_column :: "card_row \<Rightarrow> string \<Rightarrow> jsval option" where
  "card_column c k = map_of (c_cols c) k"

text \<open>The number of \<open>users\<close> rows with a given username.\<close>

definition count_username :: "db \<Rightarrow> string \<Rightarrow> nat" where
  "count_username d name = length (filter (\<lambda>u. u_username u = name) (users d))"

text \<open>A field of every instance object in the snapshot a join emits.\<close>

definition snapshot_card_field :: "emission list \<Rightarrow> string \<Rightarrow> jsval list option" where
  "snapshot_card_field out k =
     map_option (\<lambda>g. map (\<lambda>c. get_prop c k) (gs_cards g)) (snapshot_of out)"

text \<open>A column of every row of \<open>cards\<close>, in table order.\<close>

definition stored_column :: "db \<Rightarrow> string \<Rightarrow> jsval option list" where
  "stored_column d k = map (\<lambda>c. card_column c k) (cards d)"

section \<open>A session played through\<close>

text \<open>
  Alice joins the new session \<open>arena1\<close> on connection 10 and creates a card; Bob joins
  on connection 11. Then Alice moves the card to the battlefield.
\<close>

definition no_rooms :: rooms where
  "no_rooms = (\<lambda>_. {})"

definition fire_bolt :: jsobj where
  "fire_bolt =
     [''card_name'' \<mapsto> JStr ''Fire Bolt'', ''card_type'' \<mapsto> JStr ''Ability'',
      ''description'' \<mapsto> JStr ''Burns'', ''is_active'' \<mapsto> JBool True,
      ''power_level'' \<mapsto> JNum 3, ''card_ability_is_burst'' \<mapsto> JBool False]"

definition sage :: jsobj where
  "sage =
     [''card_name'' \<mapsto> JStr ''Sage'', ''card_type'' \<mapsto> JStr ''Suit'',
      ''description'' \<mapsto> JStr ''Wise'', ''power_level'' \<mapsto> JNum 1,
      ''card_suit_might_modifier'' \<mapsto> JNum 1,
      ''card_suit_intellect_modifier'' \<mapsto> JNum 2]"

definition alice_joined :: "db \<times> rooms \<times> emission list" where
  "alice_joined = joinGame empty_db no_rooms 10 ''arena1'' ''alice''"

definition alice_created :: "db \<times> emission list" where
  "alice_created = createCard (fst alice_joined) 100 1 ''alice'' fire_bolt"

definition bob_joined :: "db \<times> rooms \<times> emission list" where
  "bob_joined = joinGame (fst alice_created) (fst (snd alice_joined)) 11 ''arena1'' ''bob''"

definition arena_db :: db where
  "arena_db = fst bob_joined"

definition arena_rooms :: rooms where
  "arena_rooms = fst (snd bob_joined)"

definition alice_move :: move_request where
  "alice_move = \<lparr> mv_sessionId = 1, mv_userId = ''alice'', mv_playerCardId = 1,
      mv_oldLocation = ''CreatedCardStorage'', mv_destinationLocation = ''battlefield'',
      mv_destinationSlotId = Some 3, mv_isActive = True \<rparr>"

definition bob_move :: move_request where
  "bob_move = alice_move\<lparr> mv_userId := ''bob'' \<rparr>"

definition carol_move :: move_request where
  "carol_move = alice_move\<lparr> mv_userId := ''carol'' \<rparr>"

definition battlefield_db :: db where
  "battlefield_db = fst (moveCard arena_db 101 10 alice_move)"

definition alice_play :: play_request where
  "alice_play = \<lparr> pl_sessionId = 1, pl_userId = ''alice'', pl_playerCardId = 1,
      pl_oldLocation = ''battlefield'' \<rparr>"

definition carol_play :: play_request where
  "carol_play = alice_play\<lparr> pl_userId := ''carol'' \<rparr>"

text \<open>A second table, whose suit card is stored by the handler of \<open>src/server/index.js\<close>.\<close>

definition sage_db :: db where
  "sage_db = fst (createCard_index (fst alice_joined) 100 1 ''alice'' sage)"

text \<open>The \<open>cards\<close> row that Alice's create-card request stores.\<close>

definition fire_bolt_row :: card_row where
  "fire_bolt_row = \<lparr>c_card_id = 1, c_cols =
     [(''card_name'', JStr ''Fire Bolt''), (''card_type'', JStr ''Ability''),
      (''description'', JStr ''Burns''), (''is_active'', JNum 1),
      (''power_level'', JNum 3), (''card_hero_type'', JNull),
      (''card_hero_class'', JNull), (''card_hero_role'', JNull),
      (''card_ability_class_melee'', JNull), (''card_ability_class_longrange'', JNull),
      (''card_ability_class_areaofeffect'', JNull), (''card_ability_class_duration'', JNull),
      (''card_ability_is_burst'', JNull), (''card_ability_burst_link_action'', JNull),
      (''card_ability_burst_effect'', JNull), (''card_suit_might_modifier'', JNull),
      (''card_suit_agility_modifier'', JNull), (''card_suit_guts_modifier'', JNull),
      (''card_suit_intellect_modifier'', JNull), (''card_suit_rally_modifier'', JNull),
      (''card_weapon_damage'', JNull), (''card_weapon_range'', JNull),
      (''card_weapon_effect_slot1'', JNull), (''card_weapon_effect_slot2'', JNull),
      (''card_weapon_effect_slot3'', JNull)]\<rparr>"

text \<open>The \<open>cards\<close> row of the second table.\<close>

definition sage_row :: card_row where
  "sage_row = \<lparr>c_card_id = 1, c_cols =
     [(''card_name'', JStr ''Sage''), (''card_type'', JStr ''Suit''),
      (''description'', JStr ''Wise''), (''is_active'', JNull),
      (''power_level'', JNum 1), (''card_hero_type'', JNull),
      (''card_hero_class'', JNull), (''card_hero_role'', JNull),
      (''card_ability_class_melee'', JNull), (''card_ability_class_longrange'', JNull),
      (''card_ability_class_areaofeffect'', JNull), (''card_ability_class_duration'', JNull),
      (''card_ability_is_burst'', JNull), (''card_ability_burst_link_action'', JNull),
      (''card_ability_burst_effect'', JNull), (''card_suit_might_modifier'', JNum 1),
      (''card_suit_agility_modifier'', JNull), (''card_suit_guts_modifier'', JNull),
      (''card_suit_intellect_modifier'', JNum 2), (''card_suit_rally_modifier'', JNull),
      (''card_weapon_damage'', JNull), (''card_weapon_range'', JNull),
      (''card_weapon_effect_slot1'', JNull), (''card_weapon_effect_slot2'', JNull),
      (''card_weapon_effect_slot3'', JNull)]\<rparr>"

section \<open>Facts about the shared statements\<close>

lemma update_without_match:
  "\<forall>x\<in>set xs. \<not> P x \<Longrightarrow> map (\<lambda>x. if P x then f x else x) xs = xs"
  by (induction xs) auto

lemma update_player_cards_no_match:
  assumes "\<forall>pc\<in>set (player_cards d). \<not> instance_matches i u s pc"
  shows "update_player_cards d loc slot act i u s = (d, 0)"
  using assms by (simp add: update_player_cards_def update_without_match filter_empty_conv)

lemma player_cards_after_update:
  "player_cards (fst (update_player_cards d loc slot act i u s)) =
     map (\<lambda>pc. if instance_matches i u s pc
               then pc\<lparr>pc_location := loc, pc_slot_id := slot, pc_is_active := act\<rparr>
               else pc) (player_cards d)"
  by (simp add: update_player_cards_def)

lemma affected_rows_positive:
  "0 < snd (update_player_cards d loc slot act i u s) \<longleftrightarrow>
     (\<exists>pc\<in>set (player_cards d). instance_matches i u s pc)"
  by (auto simp: update_player_cards_def filter_empty_conv)

lemma player_cards_insert_log [simp]:
  "player_cards (insert_log d now s u c a t) = player_cards d"
  by (simp add: insert_log_def)

lemma map_upd_some:
  assumes "x \<in> set xs" "P x" "\<And>x. P x \<Longrightarrow> P (f x)"
  shows "\<exists>y\<in>set (map (\<lambda>x. if P x then f x else x) xs). P y"
proof -
  from assms(1,2) have "f x \<in> set (map (\<lambda>x. if P x then f x else x) xs)"
    by (force simp: image_iff)
  with assms(2,3) show ?thesis by blast
qed

lemma map_upd_all:
  assumes "y \<in> set (map (\<lambda>x. if P x then f x else x) xs)" "P y" "\<And>x. P x \<Longrightarrow> Q (f x)"
  shows "Q y"
proof -
  from assms(1) obtain x where "x \<in> set xs" and y: "y = (if P x then f x else x)"
    by auto
  show ?thesis
  proof (cases "P x")
    case True
    with y assms(3) show ?thesis by simp
  next
    case False
    with y assms(2) show ?thesis by simp
  qed
qed

lemma matches_after_set:
  "instance_matches i u s (pc\<lparr>pc_location := loc, pc_slot_id := slot, pc_is_active := act\<rparr>)
     = instance_matches i u s pc"
  by (simp add: instance_matches_def)

section \<open>The session played through, row by row\<close>

lemma alice_joined_db:
  "fst alice_joined = \<lparr> users = [\<lparr>u_user_id = 1, u_username = ''alice''\<rparr>], next_user_id = 2,
      game_sessions = [\<lparr>s_session_id = 1, s_gm_user_id = 1, s_session_name = ''arena1''\<rparr>],
      next_session_id = 2, cards = [], next_card_id = 1, player_cards = [],
      next_player_card_id = 1, combat_log = [], next_log_id = 1,
      player_sessions = [\<lparr>ps_user_id = 1, ps_session_id = 1\<rparr>] \<rparr>"
  by (simp add: alice_joined_def empty_db_def joinGame_def resolve_user_def resolve_session_def Let_def)

lemma arena_db_rows:
  "arena_db = \<lparr> users = [\<lparr>u_user_id = 1, u_username = ''alice''\<rparr>,
                          \<lparr>u_user_id = 2, u_username = ''bob''\<rparr>], next_user_id = 3,
      game_sessions = [\<lparr>s_session_id = 1, s_gm_user_id = 1, s_session_name = ''arena1''\<rparr>],
      next_session_id = 2, cards = [fire_bolt_row], next_card_id = 2,
      player_cards = [\<lparr>pc_player_card_id = 1, pc_user_id = 1, pc_card_id = 1, pc_session_id = 1,
                       pc_location = ''CreatedCardStorage'', pc_slot_id = None,
                       pc_is_active = False\<rparr>],
      next_player_card_id = 2,
      combat_log = [\<lparr>l_log_id = 1, l_session_id = 1, l_user_id = 1, l_card_id = 1,
                     l_action_type = ''Card Created'',
                     l_action_description = ''alice created card \"Fire Bolt\"'',
                     l_action_timestamp = 100\<rparr>],
      next_log_id = 2,
      player_sessions = [\<lparr>ps_user_id = 1, ps_session_id = 1\<rparr>,
                         \<lparr>ps_user_id = 2, ps_session_id = 1\<rparr>] \<rparr>"
  by (simp add: arena_db_def bob_joined_def alice_created_def alice_joined_db fire_bolt_def
        fire_bolt_row_def joinGame_def createCard_def resolve_user_def resolve_session_def
        insert_card_def insert_player_card_def insert_log_def card_insert_values_def
        cards_insert_columns_def common_columns_def optional_columns_def
        get_prop_def or_null_def player_cards_is_active_default_def created_description_def Let_def)




lemma fire_bolt_row_id [simp]: "c_card_id fire_bolt_row = 1"
  by (simp add: fire_bolt_row_def)

lemma joined_fire_bolt_name [simp]:
  "get_prop (joined_obj (pc, fire_bolt_row)) ''card_name'' = JStr ''Fire Bolt''"
  by (simp add: joined_obj_def card_obj_def fire_bolt_row_def get_prop_def map_add_def)

lemma moved_card_name [simp]:
  "get_prop (moved_card_data row u ol) ''card_name'' = get_prop row ''card_name''"
  by (simp add: moved_card_data_def get_prop_def)

lemma played_card_name [simp]:
  "get_prop (played_card_data row u ol) ''card_name'' = get_prop row ''card_name''"
  by (simp add: played_card_data_def get_prop_def)

lemma battlefield_db_rows:
  "battlefield_db = arena_db\<lparr>
      player_cards := [\<lparr>pc_player_card_id = 1, pc_user_id = 1, pc_card_id = 1, pc_session_id = 1,
                        pc_location = ''battlefield'', pc_slot_id = Some 3, pc_is_active = True\<rparr>],
      combat_log := combat_log arena_db @
         [\<lparr>l_log_id = 2, l_session_id = 1, l_user_id = 1, l_card_id = 1,
           l_action_type = ''Card Moved'',
           l_action_description =
             ''alice moved card \"Fire Bolt\" from CreatedCardStorage to battlefield'',
           l_action_timestamp = 101\<rparr>],
      next_log_id := 3\<rparr>"
  by (simp add: battlefield_db_def moveCard_def alice_move_def lookup_user_def
        update_player_cards_def instance_matches_def refetch_instance_def join_cards_def
        insert_log_def arena_db_rows Let_def)

lemma alice_play_out:
  "snd (playCardAction battlefield_db 102 10 alice_play) =
     [Emit (ToRoom 1) ''server:cardPlayed''
        (CardObj (played_card_data
           (joined_obj (\<lparr>pc_player_card_id = 1, pc_user_id = 1, pc_card_id = 1, pc_session_id = 1,
                          pc_location = ''DiscardPile'', pc_slot_id = None, pc_is_active = False\<rparr>,
                        fire_bolt_row))
           ''alice'' ''battlefield''))]"
  by (simp add: playCardAction_def alice_play_def lookup_user_def update_player_cards_def
        instance_matches_def refetch_instance_def join_cards_def battlefield_db_rows
        arena_db_rows Let_def)

lemma alice_play_rows:
  "player_cards (fst (playCardAction battlefield_db 102 10 alice_play)) =
     [\<lparr>pc_player_card_id = 1, pc_user_id = 1, pc_card_id = 1, pc_session_id = 1,
       pc_location = ''DiscardPile'', pc_slot_id = None, pc_is_active = False\<rparr>]"
  by (simp add: playCardAction_def alice_play_def lookup_user_def update_player_cards_def
        instance_matches_def refetch_instance_def join_cards_def battlefield_db_rows
        arena_db_rows Let_def)

section \<open>Move-card: a request that matches no row\<close>

text \<open>
  Claim C1. A move-card request whose instance id, resolved user id and session id
  match no row of \<open>player_cards\<close> (wrong owner, wrong session, no such instance, or
  no such user) leaves the store exactly as it was, and its only emission is one
  \<open>error\<close> event addressed to the calling connection: nothing goes to the room.
\<close>

theorem moveCard_rejects_unmatched:
  assumes "\<And>uid. lookup_user d (mv_userId rq) = Some uid \<Longrightarrow>
             \<forall>pc\<in>set (player_cards d).
               \<not> instance_matches (mv_playerCardId rq) uid (mv_sessionId rq) pc"
  shows "fst (moveCard d now sock rq) = d \<and>
         (\<exists>msg. snd (moveCard d now sock rq) = [Emit (ToSocket sock) ''error'' (ErrorMsg msg)]) \<and>
         (\<forall>e\<in>set (snd (moveCard d now sock rq)). recipients rs e = {sock})"
proof (cases "lookup_user d (mv_userId rq)")
  case None
  then show ?thesis by (simp add: moveCard_def)
next
  case (Some uid)
  from assms [OF Some]
  have "update_player_cards d (mv_destinationLocation rq) (mv_destinationSlotId rq)
          (mv_isActive rq) (mv_playerCardId rq) uid (mv_sessionId rq) = (d, 0)"
    by (rule update_player_cards_no_match)
  with Some show ?thesis by (simp add: moveCard_def)
qed

theorem moveCard_rejects_unmatched_witness:
  "lookup_user arena_db (mv_userId bob_move) = Some 2 \<and>
   moveCard arena_db 102 11 bob_move =
     (arena_db, [Emit (ToSocket 11) ''error''
        (ErrorMsg ''Failed to move card (card not found or permission denied).'')]) \<and>
   delivered arena_rooms (snd (moveCard arena_db 102 11 bob_move)) 10 = []"
proof -
  have u: "lookup_user arena_db (mv_userId bob_move) = Some 2"
    by (simp add: lookup_user_def bob_move_def alice_move_def arena_db_rows)
  have h: "\<forall>pc\<in>set (player_cards arena_db).
      \<not> instance_matches (mv_playerCardId bob_move) uid (mv_sessionId bob_move) pc"
    if "lookup_user arena_db (mv_userId bob_move) = Some uid" for uid
    using that u by (simp add: instance_matches_def bob_move_def alice_move_def arena_db_rows)
  have out: "snd (moveCard arena_db 102 11 bob_move) =
      [Emit (ToSocket 11) ''error''
        (ErrorMsg ''Failed to move card (card not found or permission denied).'')]"
    by (simp add: moveCard_def u update_player_cards_def)
       (simp add: instance_matches_def bob_move_def alice_move_def arena_db_rows)
  from moveCard_rejects_unmatched [of arena_db bob_move, OF h, of 102 11 arena_rooms]
  have "fst (moveCard arena_db 102 11 bob_move) = arena_db" by simp
  with u out show ?thesis
    by (simp add: prod_eq_iff delivered_def)
qed

section \<open>Play-card-action: the canonical discard state\<close>

lemma playCardAction_cases:
  assumes "e \<in> set (snd (playCardAction d now sock rq))" "event_name e = ''server:cardPlayed''"
  obtains uid where "lookup_user d (pl_userId rq) = Some uid" "uid \<noteq> 0"
    "\<exists>pc\<in>set (player_cards d). instance_matches (pl_playerCardId rq) uid (pl_sessionId rq) pc"
    "player_cards (fst (playCardAction d now sock rq)) =
       player_cards (fst (update_player_cards d ''DiscardPile'' None False (pl_playerCardId rq) uid (pl_sessionId rq)))"
  using assms
  apply (auto simp: playCardAction_def Let_def split: option.splits if_splits prod.splits list.splits)
  apply (metis affected_rows_positive snd_conv)
  done

text \<open>
  Claim C2. When a play-card-action request succeeds, that is when it broadcasts
  \<open>server:cardPlayed\<close>, the caller resolves to a user, an instance with the requested
  id, that owner and that session is persisted afterwards, and every such row has
  location \<open>DiscardPile\<close>, no slot and is inactive, whatever it held before.
\<close>

theorem playCardAction_forces_discard:
  assumes "e \<in> set (snd (playCardAction d now sock rq))"
    and "event_name e = ''server:cardPlayed''"
  shows "\<exists>uid. lookup_user d (pl_userId rq) = Some uid \<and>
           (\<exists>pc\<in>set (player_cards (fst (playCardAction d now sock rq))).
              instance_matches (pl_playerCardId rq) uid (pl_sessionId rq) pc) \<and>
           (\<forall>pc\<in>set (player_cards (fst (playCardAction d now sock rq))).
              instance_matches (pl_playerCardId rq) uid (pl_sessionId rq) pc \<longrightarrow>
                pc_location pc = ''DiscardPile'' \<and> pc_slot_id pc = None \<and> \<not> pc_is_active pc)"
proof -
  from assms obtain uid where u: "lookup_user d (pl_userId rq) = Some uid"
    and ex: "\<exists>pc\<in>set (player_cards d). instance_matches (pl_playerCardId rq) uid (pl_sessionId rq) pc"
    and pcs: "player_cards (fst (playCardAction d now sock rq)) =
       player_cards (fst (update_player_cards d ''DiscardPile'' None False
         (pl_playerCardId rq) uid (pl_sessionId rq)))"
    by (rule playCardAction_cases)
  define P where "P = instance_matches (pl_playerCardId rq) uid (pl_sessionId rq)"
  define f where "f = (\<lambda>pc::player_card_row. pc\<lparr>pc_location := ''DiscardPile'', pc_slot_id := None, pc_is_active := False\<rparr>)"
  have rows: "player_cards (fst (playCardAction d now sock rq)) =
      map (\<lambda>pc. if P pc then f pc else pc) (player_cards d)"
    by (simp add: pcs player_cards_after_update P_def f_def)
  have keep: "\<And>pc. P pc \<Longrightarrow> P (f pc)"
    by (simp add: P_def f_def matches_after_set)
  from ex obtain pc0 where "pc0 \<in> set (player_cards d)" "P pc0"
    unfolding P_def by blast
  then have some: "\<exists>pc\<in>set (player_cards (fst (playCardAction d now sock rq))). P pc"
    unfolding rows using keep by (rule map_upd_some)
  have all: "pc_location pc = ''DiscardPile'' \<and> pc_slot_id pc = None \<and> \<not> pc_is_active pc"
    if "pc \<in> set (player_cards (fst (playCardAction d now sock rq)))" "P pc" for pc
  proof (rule map_upd_all [where P = P and f = f and xs = "player_cards d"])
    show "pc \<in> set (map (\<lambda>x. if P x then f x else x) (player_cards d))"
      using that(1) by (simp only: rows)
    show "P pc" by (rule that(2))
    show "pc_location (f x) = ''DiscardPile'' \<and> pc_slot_id (f x) = None \<and> \<not> pc_is_active (f x)"
      for x by (simp add: f_def)
  qed
  show ?thesis
  proof (intro exI conjI)
    show "lookup_user d (pl_userId rq) = Some uid" by (rule u)
    show "\<exists>pc\<in>set (player_cards (fst (playCardAction d now sock rq))).
      instance_matches (pl_playerCardId rq) uid (pl_sessionId rq) pc"
      using some by (simp only: P_def)
    show "\<forall>pc\<in>set (player_cards (fst (playCardAction d now sock rq))).
      instance_matches (pl_playerCardId rq) uid (pl_sessionId rq) pc \<longrightarrow>
        pc_location pc = ''DiscardPile'' \<and> pc_slot_id pc = None \<and> \<not> pc_is_active pc"
      using all unfolding P_def by blast
  qed
qed

theorem playCardAction_forces_discard_witness:
  "hd (snd (playCardAction battlefield_db 102 10 alice_play))
     \<in> set (snd (playCardAction battlefield_db 102 10 alice_play)) \<and>
   event_name (hd (snd (playCardAction battlefield_db 102 10 alice_play))) = ''server:cardPlayed'' \<and>
   pc_location (hd (player_cards battlefield_db)) = ''battlefield'' \<and>
   map pc_location (player_cards (fst (playCardAction battlefield_db 102 10 alice_play))) =
     [''DiscardPile''] \<and>
   (\<exists>uid. lookup_user battlefield_db (pl_userId alice_play) = Some uid \<and>
      (\<exists>pc\<in>set (player_cards (fst (playCardAction battlefield_db 102 10 alice_play))).
         instance_matches (pl_playerCardId alice_play) uid (pl_sessionId alice_play) pc) \<and>
      (\<forall>pc\<in>set (player_cards (fst (playCardAction battlefield_db 102 10 alice_play))).
         instance_matches (pl_playerCardId alice_play) uid (pl_sessionId alice_play) pc \<longrightarrow>
           pc_location pc = ''DiscardPile'' \<and> pc_slot_id pc = None \<and> \<not> pc_is_active pc))"
proof -
  have h1: "hd (snd (playCardAction battlefield_db 102 10 alice_play))
     \<in> set (snd (playCardAction battlefield_db 102 10 alice_play))"
    by (simp add: alice_play_out)
  have h2: "event_name (hd (snd (playCardAction battlefield_db 102 10 alice_play))) =
      ''server:cardPlayed''"
    by (simp add: alice_play_out)
  have before: "pc_location (hd (player_cards battlefield_db)) = ''battlefield''"
    by (simp add: battlefield_db_rows)
  have after: "map pc_location (player_cards (fst (playCardAction battlefield_db 102 10 alice_play))) =
     [''DiscardPile'']"
    by (simp add: alice_play_rows)
  from h1 h2 before after playCardAction_forces_discard [OF h1 h2] show ?thesis
    by (intro conjI)
qed

section \<open>Identity resolution\<close>

text \<open>
  Claim C6. Resolving the same username twice in sequence gives the same user id both
  times, and the second call leaves the store as the first call left it, so it adds no
  row. After the first call the number of rows with that username is the number before,
  or one if there was none; starting from at most one row there is exactly one.
\<close>

theorem resolve_user_idempotent:
  "fst (resolve_user (snd (resolve_user d name)) name) = fst (resolve_user d name) \<and>
   snd (resolve_user (snd (resolve_user d name)) name) = snd (resolve_user d name) \<and>
   count_username (snd (resolve_user d name)) name = max 1 (count_username d name) \<and>
   (count_username d name \<le> 1 \<longrightarrow>
      count_username (snd (resolve_user (snd (resolve_user d name)) name)) name = 1)"
proof (cases "filter (\<lambda>u. u_username u = name) (users d)")
  case Nil
  then show ?thesis by (simp add: resolve_user_def count_username_def)
next
  case (Cons u us)
  then show ?thesis by (simp add: resolve_user_def count_username_def)
qed

theorem resolve_user_idempotent_witness:
  "count_username empty_db ''alice'' \<le> 1 \<and>
   fst (resolve_user empty_db ''alice'') = 1 \<and>
   fst (resolve_user (snd (resolve_user empty_db ''alice'')) ''alice'') = 1 \<and>
   count_username (snd (resolve_user (snd (resolve_user empty_db ''alice'')) ''alice'')) ''alice'' = 1"
proof -
  have h: "count_username empty_db ''alice'' \<le> 1"
    by (simp add: count_username_def empty_db_def)
  have first: "fst (resolve_user empty_db ''alice'') = 1"
    by (simp add: resolve_user_def empty_db_def)
  from resolve_user_idempotent [of empty_db "''alice''"] h first show ?thesis
    by simp
qed

section \<open>Join-game: session resolution\<close>

lemma resolve_user_sessions [simp]:
  "game_sessions (snd (resolve_user d n)) = game_sessions d"
  "next_session_id (snd (resolve_user d n)) = next_session_id d"
  by (simp_all add: resolve_user_def split: list.splits)

lemma resolve_session_again:
  assumes "game_sessions d' = game_sessions (snd (resolve_session d u name))"
  shows "fst (resolve_session d' u' name) = fst (resolve_session d u name)"
    and "game_sessions (snd (resolve_session d' u' name)) = game_sessions d'"
  using assms by (auto simp: resolve_session_def split: list.splits)

lemma resolve_session_new:
  assumes "\<forall>s\<in>set (game_sessions d). s_session_name s \<noteq> name"
  shows "game_sessions (snd (resolve_session d u name)) =
           game_sessions d @ [\<lparr>s_session_id = fst (resolve_session d u name), s_gm_user_id = u,
                               s_session_name = name\<rparr>]"
proof -
  from assms have "filter (\<lambda>s. s_session_name s = name) (game_sessions d) = []"
    by (simp add: filter_empty_conv)
  then show ?thesis by (simp add: resolve_session_def)
qed

lemma joinGame_out:
  "snd (snd (joinGame d rs sock name user)) =
     (let d1 = snd (resolve_user d user); u = fst (resolve_user d user);
          sid = fst (resolve_session d1 u name); d2 = snd (resolve_session d1 u name)
      in [Emit (ToSocket sock) ''server:gameState'' (GameState (build_game_state d2 sid name user)),
          Emit (ToRoomExcept sid sock) ''server:playerJoined'' (PlayerJoined user ''TestUser'')])"
  by (simp add: joinGame_def Let_def split: prod.splits)

lemma joinGame_rooms:
  "fst (snd (joinGame d rs sock name user)) =
     (let sid = fst (resolve_session (snd (resolve_user d user)) (fst (resolve_user d user)) name)
      in rs(sid := insert sock (rs sid)))"
  by (simp add: joinGame_def Let_def split: prod.splits)

lemma joinGame_sessions:
  "game_sessions (fst (joinGame d rs sock name user)) =
     game_sessions (snd (resolve_session (snd (resolve_user d user)) (fst (resolve_user d user)) name))"
  by (simp add: joinGame_def Let_def split: prod.splits)

lemma build_game_state_id [simp]:
  "gs_sessionId (build_game_state d sid name user) = sid"
  by (simp add: build_game_state_def Let_def)

lemma joinGame_snapshot:
  "snapshot_of (snd (snd (joinGame d rs sock name user))) =
     Some (build_game_state
             (snd (resolve_session (snd (resolve_user d user)) (fst (resolve_user d user)) name))
             (fst (resolve_session (snd (resolve_user d user)) (fst (resolve_user d user)) name))
             name user)"
  by (simp add: joinGame_out snapshot_of_def Let_def)

text \<open>
  Claim C7. Two joins of the same session name in sequence, by any users on any
  connections, carry the same session id in their snapshots, and the second join adds
  no \<open>game_sessions\<close> row. When the name is unseen before the first join, that join
  appends one row with the snapshot's id, the given name and the joining user's
  resolved id as \<open>gm_user_id\<close>.
\<close>

theorem joinGame_session_by_name:
  "\<exists>g1 g2.
     snapshot_of (snd (snd (joinGame d rs sock1 name user1))) = Some g1 \<and>
     snapshot_of (snd (snd (joinGame (fst (joinGame d rs sock1 name user1))
                              (fst (snd (joinGame d rs sock1 name user1))) sock2 name user2))) = Some g2 \<and>
     gs_sessionId g1 = gs_sessionId g2 \<and>
     game_sessions (fst (joinGame (fst (joinGame d rs sock1 name user1))
                              (fst (snd (joinGame d rs sock1 name user1))) sock2 name user2)) =
       game_sessions (fst (joinGame d rs sock1 name user1)) \<and>
     ((\<forall>s\<in>set (game_sessions d). s_session_name s \<noteq> name) \<longrightarrow>
        game_sessions (fst (joinGame d rs sock1 name user1)) =
          game_sessions d @ [\<lparr>s_session_id = gs_sessionId g1,
                              s_gm_user_id = fst (resolve_user d user1),
                              s_session_name = name\<rparr>])"
proof -
  let ?r1 = "joinGame d rs sock1 name user1"
  let ?r2 = "joinGame (fst ?r1) (fst (snd ?r1)) sock2 name user2"
  let ?d1 = "snd (resolve_user d user1)" and ?u1 = "fst (resolve_user d user1)"
  let ?e1 = "snd (resolve_user (fst ?r1) user2)" and ?u2 = "fst (resolve_user (fst ?r1) user2)"
  let ?g1 = "build_game_state (snd (resolve_session ?d1 ?u1 name))
               (fst (resolve_session ?d1 ?u1 name)) name user1"
  let ?g2 = "build_game_state (snd (resolve_session ?e1 ?u2 name))
               (fst (resolve_session ?e1 ?u2 name)) name user2"
  have s1: "snapshot_of (snd (snd ?r1)) = Some ?g1" by (rule joinGame_snapshot)
  have s2: "snapshot_of (snd (snd ?r2)) = Some ?g2" by (rule joinGame_snapshot)
  have gs: "game_sessions ?e1 = game_sessions (snd (resolve_session ?d1 ?u1 name))"
    by (simp add: joinGame_sessions)
  have same: "gs_sessionId ?g1 = gs_sessionId ?g2"
    using resolve_session_again(1) [OF gs, of ?u2] by simp
  have keep: "game_sessions (fst ?r2) = game_sessions (fst ?r1)"
    using resolve_session_again(2) [OF gs, of ?u2] by (simp add: joinGame_sessions)
  have new: "(\<forall>s\<in>set (game_sessions d). s_session_name s \<noteq> name) \<longrightarrow>
      game_sessions (fst ?r1) =
        game_sessions d @ [\<lparr>s_session_id = gs_sessionId ?g1,
                            s_gm_user_id = ?u1, s_session_name = name\<rparr>]"
    using resolve_session_new [of ?d1 name ?u1] by (simp add: joinGame_sessions)
  from s1 s2 same keep new show ?thesis by blast
qed

theorem joinGame_session_by_name_witness:
  "game_sessions empty_db = [] \<and>
   map_option gs_sessionId (snapshot_of (snd (snd alice_joined))) = Some 1 \<and>
   map_option gs_sessionId
     (snapshot_of (snd (snd (joinGame (fst alice_joined) (fst (snd alice_joined)) 11
                               ''arena1'' ''bob'')))) = Some 1 \<and>
   game_sessions (fst alice_joined) =
     [\<lparr>s_session_id = 1, s_gm_user_id = 1, s_session_name = ''arena1''\<rparr>]"
proof -
  have h: "\<forall>s\<in>set (game_sessions empty_db). s_session_name s \<noteq> ''arena1''"
    by (simp add: empty_db_def)
  have first: "map_option gs_sessionId (snapshot_of (snd (snd alice_joined))) = Some 1"
    by (simp add: alice_joined_def joinGame_snapshot)
       (simp add: resolve_session_def resolve_user_def empty_db_def)
  have rows: "game_sessions (fst alice_joined) =
     [\<lparr>s_session_id = 1, s_gm_user_id = 1, s_session_name = ''arena1''\<rparr>]"
    by (simp add: alice_joined_db)
  from joinGame_session_by_name [of empty_db no_rooms 10 "''arena1''" "''alice''" 11 "''bob''"]
  obtain g1 g2 where "snapshot_of (snd (snd alice_joined)) = Some g1"
    and "snapshot_of (snd (snd (joinGame (fst alice_joined) (fst (snd alice_joined)) 11
                               ''arena1'' ''bob''))) = Some g2"
    and "gs_sessionId g1 = gs_sessionId g2"
    unfolding alice_joined_def by blast
  with h first rows show ?thesis by (simp add: empty_db_def)
qed

section \<open>Join-game: who receives what\<close>

lemma resolve_user_tables [simp]:
  "cards (snd (resolve_user d n)) = cards d"
  "player_cards (snd (resolve_user d n)) = player_cards d"
  "combat_log (snd (resolve_user d n)) = combat_log d"
  by (simp_all add: resolve_user_def split: list.splits)

lemma resolve_session_tables [simp]:
  "cards (snd (resolve_session d u n)) = cards d"
  "player_cards (snd (resolve_session d u n)) = player_cards d"
  "combat_log (snd (resolve_session d u n)) = combat_log d"
  by (simp_all add: resolve_session_def split: list.splits)

lemma delivered_pair:
  "delivered rs' [Emit (ToSocket sock) e1 p1, Emit (ToRoomExcept sid sock) e2 p2] s =
     (if s = sock then [e1] else if s \<in> rs' sid then [e2] else [])"
  by (simp add: delivered_def)

lemma find_by_filter:
  "find P xs = (case filter P xs of [] \<Rightarrow> None | x # _ \<Rightarrow> Some x)"
  by (induction xs) simp_all

lemma resolve_session_row:
  "\<exists>s. find (\<lambda>s. s_session_name s = name) (game_sessions (snd (resolve_session d u name))) = Some s \<and>
       s_session_id s = fst (resolve_session d u name)"
  by (cases "filter (\<lambda>s. s_session_name s = name) (game_sessions d)")
     (simp_all add: resolve_session_def find_by_filter)

lemma build_game_state_tables:
  assumes "cards d' = cards d" "player_cards d' = player_cards d" "combat_log d' = combat_log d"
  shows "build_game_state d' sid name user = build_game_state d sid name user"
  using assms by (simp add: build_game_state_def join_cards_def)

text \<open>
  Claim C9. After a join the \<open>game_sessions\<close> table has a row with the requested
  name; let \<open>s\<close> be the first. The join emits exactly two events: the snapshot
  \<open>server:gameState\<close>, built from the store for session \<open>s\<close>, to the joining
  connection, and the notice \<open>server:playerJoined\<close>, carrying the user identifier and
  the display name, to the room of session \<open>s\<close> except the joiner. The joiner is added
  to that room and to no other. So the joiner receives exactly the snapshot, every
  connection that was in the room of \<open>s\<close> before receives exactly the notice, and every
  other connection receives nothing.
\<close>

theorem joinGame_fanout:
  "\<exists>s. find (\<lambda>s. s_session_name s = name) (game_sessions (fst (joinGame d rs sock name user))) = Some s \<and>
        snd (snd (joinGame d rs sock name user)) =
          [Emit (ToSocket sock) ''server:gameState''
             (GameState (build_game_state d (s_session_id s) name user)),
           Emit (ToRoomExcept (s_session_id s) sock) ''server:playerJoined''
             (PlayerJoined user ''TestUser'')] \<and>
        fst (snd (joinGame d rs sock name user)) =
          rs(s_session_id s := insert sock (rs (s_session_id s))) \<and>
        (\<forall>c. delivered (fst (snd (joinGame d rs sock name user)))
                (snd (snd (joinGame d rs sock name user))) c =
              (if c = sock then [''server:gameState'']
               else if c \<in> rs (s_session_id s) then [''server:playerJoined''] else []))"
proof -
  let ?u = "fst (resolve_user d user)" and ?d1 = "snd (resolve_user d user)"
  let ?sid = "fst (resolve_session ?d1 ?u name)" and ?d2 = "snd (resolve_session ?d1 ?u name)"
  from resolve_session_row [of name ?d1 ?u]
  obtain s where s: "find (\<lambda>s. s_session_name s = name) (game_sessions ?d2) = Some s"
    and sid: "s_session_id s = ?sid" by blast
  have row: "find (\<lambda>s. s_session_name s = name) (game_sessions (fst (joinGame d rs sock name user))) = Some s"
    using s by (simp add: joinGame_sessions)
  have snap: "build_game_state ?d2 ?sid name user = build_game_state d ?sid name user"
    by (rule build_game_state_tables) simp_all
  have out: "snd (snd (joinGame d rs sock name user)) =
          [Emit (ToSocket sock) ''server:gameState''
             (GameState (build_game_state d (s_session_id s) name user)),
           Emit (ToRoomExcept (s_session_id s) sock) ''server:playerJoined''
             (PlayerJoined user ''TestUser'')]"
    by (simp add: joinGame_out Let_def snap sid)
  have rooms: "fst (snd (joinGame d rs sock name user)) =
          rs(s_session_id s := insert sock (rs (s_session_id s)))"
    by (simp add: joinGame_rooms Let_def sid)
  have del: "\<forall>c. delivered (fst (snd (joinGame d rs sock name user)))
                (snd (snd (joinGame d rs sock name user))) c =
              (if c = sock then [''server:gameState'']
               else if c \<in> rs (s_session_id s) then [''server:playerJoined''] else [])"
    unfolding out rooms by (simp add: delivered_pair)
  from row out rooms del show ?thesis by blast
qed


lemma alice_created_sessions:
  "game_sessions (fst alice_created) =
     [\<lparr>s_session_id = 1, s_gm_user_id = 1, s_session_name = ''arena1''\<rparr>]"
  by (simp add: alice_created_def createCard_def alice_joined_db resolve_user_def
        insert_card_def insert_player_card_def insert_log_def Let_def split: prod.splits)

lemma alice_room:
  "fst (snd alice_joined) = no_rooms(1 := {10})"
  by (simp add: alice_joined_def joinGame_rooms Let_def)
     (simp add: resolve_session_def resolve_user_def empty_db_def no_rooms_def)

lemma bob_session_id:
  "fst (resolve_session (snd (resolve_user (fst alice_created) ''bob''))
         (fst (resolve_user (fst alice_created) ''bob'')) ''arena1'') = 1"
  by (simp add: resolve_session_def alice_created_sessions)

theorem joinGame_fanout_witness:
  "find (\<lambda>s. s_session_name s = ''arena1'') (game_sessions arena_db) =
     Some \<lparr>s_session_id = 1, s_gm_user_id = 1, s_session_name = ''arena1''\<rparr> \<and>
   map_option gs_sessionId (snapshot_of (snd (snd bob_joined))) = Some 1 \<and>
   arena_rooms 1 = {10, 11} \<and>
   delivered arena_rooms (snd (snd bob_joined)) 11 = [''server:gameState''] \<and>
   delivered arena_rooms (snd (snd bob_joined)) 10 = [''server:playerJoined''] \<and>
   delivered arena_rooms (snd (snd bob_joined)) 12 = []"
proof -
  have row: "find (\<lambda>s. s_session_name s = ''arena1'') (game_sessions arena_db) =
     Some \<lparr>s_session_id = 1, s_gm_user_id = 1, s_session_name = ''arena1''\<rparr>"
    by (simp add: arena_db_rows)
  from joinGame_fanout [where name = "''arena1''" and d = "fst alice_created"
      and rs = "fst (snd alice_joined)" and sock = 11 and user = "''bob''"]
  obtain s where s: "find (\<lambda>s. s_session_name s = ''arena1'') (game_sessions arena_db) = Some s"
    and out: "snd (snd bob_joined) =
          [Emit (ToSocket 11) ''server:gameState''
             (GameState (build_game_state (fst alice_created) (s_session_id s) ''arena1'' ''bob'')),
           Emit (ToRoomExcept (s_session_id s) 11) ''server:playerJoined''
             (PlayerJoined ''bob'' ''TestUser'')]"
    and rooms: "arena_rooms = (fst (snd alice_joined))(s_session_id s :=
                  insert 11 (fst (snd alice_joined) (s_session_id s)))"
    and del: "\<And>c. delivered arena_rooms (snd (snd bob_joined)) c =
              (if c = 11 then [''server:gameState'']
               else if c \<in> fst (snd alice_joined) (s_session_id s)
                    then [''server:playerJoined''] else [])"
    unfolding bob_joined_def [symmetric] arena_rooms_def [symmetric] arena_db_def [symmetric]
    by blast
  from s row have "s = \<lparr>s_session_id = 1, s_gm_user_id = 1, s_session_name = ''arena1''\<rparr>"
    by (simp only: option.inject)
  then have sid: "s_session_id s = 1" by simp
  have snap: "map_option gs_sessionId (snapshot_of (snd (snd bob_joined))) = Some 1"
    by (simp add: out snapshot_of_def sid)
  have room: "arena_rooms 1 = {10, 11}"
    by (subst rooms) (auto simp: sid alice_room no_rooms_def)
  from row snap room show ?thesis
    by (simp add: del sid alice_room no_rooms_def)
qed

section \<open>Create-card: the broadcast and the new instance\<close>

lemma createCard_out:
  "snd (createCard d now sid userId cardData) =
     [Emit (ToRoom sid) ''server:cardCreated''
        (CardObj ([''card_id'' \<mapsto> JNum (int (next_card_id d)),
                   ''player_card_id'' \<mapsto> JNum (int (next_player_card_id d)),
                   ''ownerId'' \<mapsto> JStr userId,
                   ''location'' \<mapsto> JStr ''CreatedCardStorage'',
                   ''slot_id'' \<mapsto> JNull,
                   ''is_active'' \<mapsto> JBool False] ++ cardData))]"
  by (simp add: createCard_def resolve_user_def insert_card_def insert_player_card_def Let_def
        split: prod.splits list.splits)

lemma createCard_index_out:
  "snd (createCard_index d now sid userId cardData) =
     [Emit (ToRoom sid) ''server:cardCreated''
        (CardObj ([''card_id'' \<mapsto> JNum (int (next_card_id d)),
                   ''ownerId'' \<mapsto> JStr userId,
                   ''location'' \<mapsto> JStr ''CreatedCardStorage'',
                   ''slot_id'' \<mapsto> JNull] ++ cardData))]"
  by (simp add: createCard_index_def resolve_user_def insert_card_def insert_player_card_def Let_def
        split: prod.splits list.splits)

lemma createCard_player_cards:
  "player_cards (fst (createCard d now sid userId cardData)) =
     player_cards d @
       [\<lparr>pc_player_card_id = next_player_card_id d,
         pc_user_id = fst (resolve_user d userId), pc_card_id = next_card_id d,
         pc_session_id = sid, pc_location = ''CreatedCardStorage'', pc_slot_id = None,
         pc_is_active = False\<rparr>]"
  by (simp add: createCard_def resolve_user_def insert_card_def insert_player_card_def
        insert_log_def player_cards_is_active_default_def Let_def
        split: prod.splits list.splits)

lemma createCard_index_player_cards:
  "player_cards (fst (createCard_index d now sid userId cardData)) =
     player_cards d @
       [\<lparr>pc_player_card_id = next_player_card_id d,
         pc_user_id = fst (resolve_user d userId), pc_card_id = next_card_id d,
         pc_session_id = sid, pc_location = ''CreatedCardStorage'', pc_slot_id = None,
         pc_is_active = False\<rparr>]"
  by (simp add: createCard_index_def resolve_user_def insert_card_def insert_player_card_def
        insert_log_def player_cards_is_active_default_def Let_def
        split: prod.splits list.splits)

lemma payload_field_spread:
  "card_payload_field [Emit t e (CardObj (base ++ cardData))] k =
     Some (case cardData k of None \<Rightarrow> get_prop base k | Some v \<Rightarrow> v)"
  by (simp add: card_payload_field_def get_prop_def map_add_def split: option.splits)

lemma alice_created_cards:
  "cards (fst alice_created) = [fire_bolt_row]"
  by (simp add: alice_created_def createCard_def alice_joined_db resolve_user_def
        insert_card_def insert_player_card_def insert_log_def card_insert_values_def
        cards_insert_columns_def common_columns_def optional_columns_def fire_bolt_def
        fire_bolt_row_def get_prop_def or_null_def Let_def)

lemma createCard_index_cards:
  "cards (fst (createCard_index d now sid userId cardData)) =
     cards d @ [\<lparr>c_card_id = next_card_id d,
                 c_cols = zip cards_insert_columns
                            (map sql_param (card_insert_values_index cardData))\<rparr>]"
  by (simp add: createCard_index_def resolve_user_def insert_card_def insert_player_card_def
        insert_log_def Let_def split: prod.splits list.splits)

lemma createCard_cards:
  "cards (fst (createCard d now sid userId cardData)) =
     cards d @ [\<lparr>c_card_id = next_card_id d,
                 c_cols = zip cards_insert_columns
                            (map sql_param (card_insert_values cardData))\<rparr>]"
  by (simp add: createCard_def resolve_user_def insert_card_def insert_player_card_def
        insert_log_def Let_def split: prod.splits list.splits)

lemma sage_db_player_cards:
  "player_cards sage_db =
     [\<lparr>pc_player_card_id = 1, pc_user_id = 1, pc_card_id = 1, pc_session_id = 1,
       pc_location = ''CreatedCardStorage'', pc_slot_id = None, pc_is_active = False\<rparr>]"
  by (simp add: sage_db_def createCard_index_player_cards alice_joined_db resolve_user_def)

lemma spread_supplied:
  "cardData k = Some v \<Longrightarrow> (base ++ cardData) k = Some v"
  by (simp add: map_add_def)

lemma spread_missing:
  "cardData k = None \<Longrightarrow> (base ++ cardData) k = base k"
  by (simp add: map_add_def)

lemma delivered_room:
  "delivered rs [Emit (ToRoom sid) e p] c = (if c \<in> rs sid then [e] else [])"
  by (simp add: delivered_def)

lemma createCard_merges_and_broadcasts:
  "\<exists>c pc p.
      cards (fst (createCard d now sid userId cardData)) = cards d @ [c] \<and>
      player_cards (fst (createCard d now sid userId cardData)) = player_cards d @ [pc] \<and>
      snd (createCard d now sid userId cardData) =
        [Emit (ToRoom sid) ''server:cardCreated'' (CardObj p)] \<and>
      (\<forall>k v. cardData k = Some v \<longrightarrow> p k = Some v) \<and>
      (\<forall>k. cardData k = None \<longrightarrow>
         p k = [''card_id'' \<mapsto> JNum (int (c_card_id c)),
                ''player_card_id'' \<mapsto> JNum (int (pc_player_card_id pc)),
                ''ownerId'' \<mapsto> JStr userId,
                ''location'' \<mapsto> JStr ''CreatedCardStorage'',
                ''slot_id'' \<mapsto> JNull,
                ''is_active'' \<mapsto> JBool False] k) \<and>
      (\<forall>rs s. delivered rs (snd (createCard d now sid userId cardData)) s =
                (if s \<in> rs sid then [''server:cardCreated''] else []))"
proof (intro exI conjI)
  let ?base = "[''card_id'' \<mapsto> JNum (int (next_card_id d)),
                ''player_card_id'' \<mapsto> JNum (int (next_player_card_id d)),
                ''ownerId'' \<mapsto> JStr userId,
                ''location'' \<mapsto> JStr ''CreatedCardStorage'',
                ''slot_id'' \<mapsto> JNull,
                ''is_active'' \<mapsto> JBool False]"
  let ?c = "\<lparr>c_card_id = next_card_id d,
             c_cols = zip cards_insert_columns (map sql_param (card_insert_values cardData))\<rparr>"
  let ?pc = "\<lparr>pc_player_card_id = next_player_card_id d,
         pc_user_id = fst (resolve_user d userId), pc_card_id = next_card_id d,
         pc_session_id = sid, pc_location = ''CreatedCardStorage'', pc_slot_id = None,
         pc_is_active = False\<rparr>"
  show "cards (fst (createCard d now sid userId cardData)) = cards d @ [?c]"
    by (rule createCard_cards)
  show "player_cards (fst (createCard d now sid userId cardData)) = player_cards d @ [?pc]"
    by (rule createCard_player_cards)
  show "snd (createCard d now sid userId cardData) =
        [Emit (ToRoom sid) ''server:cardCreated'' (CardObj (?base ++ cardData))]"
    by (rule createCard_out)
  show "\<forall>k v. cardData k = Some v \<longrightarrow> (?base ++ cardData) k = Some v"
    by (simp add: spread_supplied)
  show "\<forall>k. cardData k = None \<longrightarrow>
         (?base ++ cardData) k = [''card_id'' \<mapsto> JNum (int (c_card_id ?c)),
                ''player_card_id'' \<mapsto> JNum (int (pc_player_card_id ?pc)),
                ''ownerId'' \<mapsto> JStr userId,
                ''location'' \<mapsto> JStr ''CreatedCardStorage'',
                ''slot_id'' \<mapsto> JNull,
                ''is_active'' \<mapsto> JBool False] k"
    by (simp add: spread_missing)
  show "\<forall>rs s. delivered rs (snd (createCard d now sid userId cardData)) s =
                (if s \<in> rs sid then [''server:cardCreated''] else [])"
    by (simp add: createCard_out delivered_room)
qed


lemma createCard_index_merges_and_broadcasts:
  "\<exists>c pc p.
      cards (fst (createCard_index d now sid userId cardData)) = cards d @ [c] \<and>
      player_cards (fst (createCard_index d now sid userId cardData)) = player_cards d @ [pc] \<and>
      snd (createCard_index d now sid userId cardData) =
        [Emit (ToRoom sid) ''server:cardCreated'' (CardObj p)] \<and>
      (\<forall>k v. cardData k = Some v \<longrightarrow> p k = Some v) \<and>
      (\<forall>k. cardData k = None \<longrightarrow>
         p k = [''card_id'' \<mapsto> JNum (int (c_card_id c)),
                ''ownerId'' \<mapsto> JStr userId,
                ''location'' \<mapsto> JStr ''CreatedCardStorage'',
                ''slot_id'' \<mapsto> JNull] k) \<and>
      (\<forall>rs s. delivered rs (snd (createCard_index d now sid userId cardData)) s =
                (if s \<in> rs sid then [''server:cardCreated''] else []))"
proof (intro exI conjI)
  let ?base = "[''card_id'' \<mapsto> JNum (int (next_card_id d)),
                ''ownerId'' \<mapsto> JStr userId,
                ''location'' \<mapsto> JStr ''CreatedCardStorage'',
                ''slot_id'' \<mapsto> JNull]"
  let ?c = "\<lparr>c_card_id = next_card_id d,
             c_cols = zip cards_insert_columns (map sql_param (card_insert_values_index cardData))\<rparr>"
  let ?pc = "\<lparr>pc_player_card_id = next_player_card_id d,
         pc_user_id = fst (resolve_user d userId), pc_card_id = next_card_id d,
         pc_session_id = sid, pc_location = ''CreatedCardStorage'', pc_slot_id = None,
         pc_is_active = False\<rparr>"
  show "cards (fst (createCard_index d now sid userId cardData)) = cards d @ [?c]"
    by (rule createCard_index_cards)
  show "player_cards (fst (createCard_index d now sid userId cardData)) = player_cards d @ [?pc]"
    by (rule createCard_index_player_cards)
  show "snd (createCard_index d now sid userId cardData) =
        [Emit (ToRoom sid) ''server:cardCreated'' (CardObj (?base ++ cardData))]"
    by (rule createCard_index_out)
  show "\<forall>k v. cardData k = Some v \<longrightarrow> (?base ++ cardData) k = Some v"
    by (simp add: spread_supplied)
  show "\<forall>k. cardData k = None \<longrightarrow>
         (?base ++ cardData) k = [''card_id'' \<mapsto> JNum (int (c_card_id ?c)),
                ''ownerId'' \<mapsto> JStr userId,
                ''location'' \<mapsto> JStr ''CreatedCardStorage'',
                ''slot_id'' \<mapsto> JNull] k"
    by (simp add: spread_missing)
  show "\<forall>rs s. delivered rs (snd (createCard_index d now sid userId cardData)) s =
                (if s \<in> rs sid then [''server:cardCreated''] else [])"
    by (simp add: createCard_index_out delivered_room)
qed

text \<open>
  Claim C8. A create-card request appends one \<open>cards\<close> row and one \<open>player_cards\<close>
  row and emits one event, \<open>server:cardCreated\<close>, to the whole room of the session,
  the creator included. Its payload is a merge: every key of the caller's card data is
  carried with the supplied value, whatever the \<open>cards\<close> row stores for it, and every
  other key has the value of the handler's own literal, which holds the new rows' ids,
  the caller's user identifier and the initial location fields. Both versions of the
  handler do so; the literal of \<open>src/server/index.js\<close> has neither \<open>player_card_id\<close>
  nor \<open>is_active\<close>.
\<close>

theorem createCard_echoes_cardData:
  "(\<exists>c pc p.
      cards (fst (createCard d now sid userId cardData)) = cards d @ [c] \<and>
      player_cards (fst (createCard d now sid userId cardData)) = player_cards d @ [pc] \<and>
      snd (createCard d now sid userId cardData) =
        [Emit (ToRoom sid) ''server:cardCreated'' (CardObj p)] \<and>
      (\<forall>k v. cardData k = Some v \<longrightarrow> p k = Some v) \<and>
      (\<forall>k. cardData k = None \<longrightarrow>
         p k = [''card_id'' \<mapsto> JNum (int (c_card_id c)),
                ''player_card_id'' \<mapsto> JNum (int (pc_player_card_id pc)),
                ''ownerId'' \<mapsto> JStr userId,
                ''location'' \<mapsto> JStr ''CreatedCardStorage'',
                ''slot_id'' \<mapsto> JNull,
                ''is_active'' \<mapsto> JBool False] k) \<and>
      (\<forall>rs s. delivered rs (snd (createCard d now sid userId cardData)) s =
                (if s \<in> rs sid then [''server:cardCreated''] else []))) \<and>
   (\<exists>c pc p.
      cards (fst (createCard_index d now sid userId cardData)) = cards d @ [c] \<and>
      player_cards (fst (createCard_index d now sid userId cardData)) = player_cards d @ [pc] \<and>
      snd (createCard_index d now sid userId cardData) =
        [Emit (ToRoom sid) ''server:cardCreated'' (CardObj p)] \<and>
      (\<forall>k v. cardData k = Some v \<longrightarrow> p k = Some v) \<and>
      (\<forall>k. cardData k = None \<longrightarrow>
         p k = [''card_id'' \<mapsto> JNum (int (c_card_id c)),
                ''ownerId'' \<mapsto> JStr userId,
                ''location'' \<mapsto> JStr ''CreatedCardStorage'',
                ''slot_id'' \<mapsto> JNull] k) \<and>
      (\<forall>rs s. delivered rs (snd (createCard_index d now sid userId cardData)) s =
                (if s \<in> rs sid then [''server:cardCreated''] else [])))"
  using createCard_merges_and_broadcasts [of d now sid userId cardData]
    createCard_index_merges_and_broadcasts [of d now sid userId cardData]
  by (rule conjI)

theorem createCard_echoes_cardData_witness:
  "fire_bolt ''card_ability_is_burst'' = Some (JBool False) \<and>
   fire_bolt ''card_id'' = None \<and>
   stored_column (fst alice_created) ''card_ability_is_burst'' = [Some JNull] \<and>
   card_payload_field (snd alice_created) ''card_ability_is_burst'' = Some (JBool False) \<and>
   card_payload_field (snd alice_created) ''card_id'' = Some (JNum 1) \<and>
   map c_card_id (cards (fst alice_created)) = [1] \<and>
   delivered (fst (snd alice_joined)) (snd alice_created) 10 = [''server:cardCreated'']"
proof -
  have h: "fire_bolt ''card_ability_is_burst'' = Some (JBool False)" "fire_bolt ''card_id'' = None"
    by (simp_all add: fire_bolt_def)
  have stored: "stored_column (fst alice_created) ''card_ability_is_burst'' = [Some JNull]"
    by (simp add: stored_column_def alice_created_cards card_column_def fire_bolt_row_def)
  have ids: "map c_card_id (cards (fst alice_created)) = [1]"
    by (simp add: alice_created_cards)
  have before: "cards (fst alice_joined) = []"
    by (simp add: alice_joined_db)
  from createCard_echoes_cardData [of "fst alice_joined" 100 1 "''alice''" fire_bolt]
  have "\<exists>c pc p.
      cards (fst alice_created) = cards (fst alice_joined) @ [c] \<and>
      player_cards (fst alice_created) = player_cards (fst alice_joined) @ [pc] \<and>
      snd alice_created = [Emit (ToRoom 1) ''server:cardCreated'' (CardObj p)] \<and>
      (\<forall>k v. fire_bolt k = Some v \<longrightarrow> p k = Some v) \<and>
      (\<forall>k. fire_bolt k = None \<longrightarrow>
         p k = [''card_id'' \<mapsto> JNum (int (c_card_id c)),
                ''player_card_id'' \<mapsto> JNum (int (pc_player_card_id pc)),
                ''ownerId'' \<mapsto> JStr ''alice'',
                ''location'' \<mapsto> JStr ''CreatedCardStorage'',
                ''slot_id'' \<mapsto> JNull,
                ''is_active'' \<mapsto> JBool False] k) \<and>
      (\<forall>rs s. delivered rs (snd alice_created) s =
                (if s \<in> rs 1 then [''server:cardCreated''] else []))"
    unfolding alice_created_def [symmetric] by (rule conjunct1)
  then obtain c pc p where rows: "cards (fst alice_created) = cards (fst alice_joined) @ [c]"
    and "player_cards (fst alice_created) = player_cards (fst alice_joined) @ [pc]"
    and out: "snd alice_created = [Emit (ToRoom 1) ''server:cardCreated'' (CardObj p)]"
    and echo: "\<forall>k v. fire_bolt k = Some v \<longrightarrow> p k = Some v"
    and own: "\<forall>k. fire_bolt k = None \<longrightarrow>
         p k = [''card_id'' \<mapsto> JNum (int (c_card_id c)),
                ''player_card_id'' \<mapsto> JNum (int (pc_player_card_id pc)),
                ''ownerId'' \<mapsto> JStr ''alice'',
                ''location'' \<mapsto> JStr ''CreatedCardStorage'',
                ''slot_id'' \<mapsto> JNull,
                ''is_active'' \<mapsto> JBool False] k"
    and del: "\<forall>rs s. delivered rs (snd alice_created) s =
                (if s \<in> rs 1 then [''server:cardCreated''] else [])"
    by (elim exE conjE) (rule that; assumption)
  from rows ids before have cid: "c_card_id c = 1" by simp
  have f1: "card_payload_field (snd alice_created) ''card_ability_is_burst'' = Some (JBool False)"
    using echo h(1) by (simp add: out card_payload_field_def get_prop_def)
  have f2: "card_payload_field (snd alice_created) ''card_id'' = Some (JNum 1)"
    using own h(2) cid by (simp add: out card_payload_field_def get_prop_def)
  have f3: "delivered (fst (snd alice_joined)) (snd alice_created) 10 = [''server:cardCreated'']"
    by (simp add: del alice_room)
  from h stored f1 f2 ids f3 show ?thesis by (intro conjI)
qed


lemma spread_lookup:
  "(base ++ cardData) k = (case cardData k of None \<Rightarrow> base k | Some v \<Rightarrow> Some v)"
  by (simp add: map_add_def)

text \<open>
  Claim C4, as the handlers have it. In both versions the new \<open>player_cards\<close> row is
  appended with location \<open>CreatedCardStorage\<close>, no slot and inactive. The payload
  broadcast to the room carries \<open>location = CreatedCardStorage\<close> and \<open>slot_id = null\<close>
  unless the caller's card data has a key of that name, whose value it then carries.
  Its \<open>is_active\<close> is that of the card data when the card data has one; otherwise it
  is \<open>false\<close> in the full server file and absent in \<open>src/server/index.js\<close>.
\<close>

theorem createCard_initial_state:
  "player_cards (fst (createCard d now sid userId cardData)) =
     player_cards d @
       [\<lparr>pc_player_card_id = next_player_card_id d, pc_user_id = fst (resolve_user d userId),
         pc_card_id = next_card_id d, pc_session_id = sid,
         pc_location = ''CreatedCardStorage'', pc_slot_id = None, pc_is_active = False\<rparr>] \<and>
   player_cards (fst (createCard_index d now sid userId cardData)) =
     player_cards d @
       [\<lparr>pc_player_card_id = next_player_card_id d, pc_user_id = fst (resolve_user d userId),
         pc_card_id = next_card_id d, pc_session_id = sid,
         pc_location = ''CreatedCardStorage'', pc_slot_id = None, pc_is_active = False\<rparr>] \<and>
   (\<exists>p. snd (createCard d now sid userId cardData) =
          [Emit (ToRoom sid) ''server:cardCreated'' (CardObj p)] \<and>
        p ''location'' =
          (case cardData ''location'' of None \<Rightarrow> Some (JStr ''CreatedCardStorage'')
           | Some v \<Rightarrow> Some v) \<and>
        p ''slot_id'' = (case cardData ''slot_id'' of None \<Rightarrow> Some JNull | Some v \<Rightarrow> Some v) \<and>
        p ''is_active'' =
          (case cardData ''is_active'' of None \<Rightarrow> Some (JBool False) | Some v \<Rightarrow> Some v)) \<and>
   (\<exists>p. snd (createCard_index d now sid userId cardData) =
          [Emit (ToRoom sid) ''server:cardCreated'' (CardObj p)] \<and>
        p ''location'' =
          (case cardData ''location'' of None \<Rightarrow> Some (JStr ''CreatedCardStorage'')
           | Some v \<Rightarrow> Some v) \<and>
        p ''slot_id'' = (case cardData ''slot_id'' of None \<Rightarrow> Some JNull | Some v \<Rightarrow> Some v) \<and>
        p ''is_active'' = cardData ''is_active'')"
proof (intro conjI)
  show "player_cards (fst (createCard d now sid userId cardData)) =
     player_cards d @
       [\<lparr>pc_player_card_id = next_player_card_id d, pc_user_id = fst (resolve_user d userId),
         pc_card_id = next_card_id d, pc_session_id = sid,
         pc_location = ''CreatedCardStorage'', pc_slot_id = None, pc_is_active = False\<rparr>]"
    by (rule createCard_player_cards)
  show "player_cards (fst (createCard_index d now sid userId cardData)) =
     player_cards d @
       [\<lparr>pc_player_card_id = next_player_card_id d, pc_user_id = fst (resolve_user d userId),
         pc_card_id = next_card_id d, pc_session_id = sid,
         pc_location = ''CreatedCardStorage'', pc_slot_id = None, pc_is_active = False\<rparr>]"
    by (rule createCard_index_player_cards)
  show "\<exists>p. snd (createCard d now sid userId cardData) =
          [Emit (ToRoom sid) ''server:cardCreated'' (CardObj p)] \<and>
        p ''location'' =
          (case cardData ''location'' of None \<Rightarrow> Some (JStr ''CreatedCardStorage'')
           | Some v \<Rightarrow> Some v) \<and>
        p ''slot_id'' = (case cardData ''slot_id'' of None \<Rightarrow> Some JNull | Some v \<Rightarrow> Some v) \<and>
        p ''is_active'' =
          (case cardData ''is_active'' of None \<Rightarrow> Some (JBool False) | Some v \<Rightarrow> Some v)"
    by (simp add: createCard_out spread_lookup split: option.splits)
  show "\<exists>p. snd (createCard_index d now sid userId cardData) =
          [Emit (ToRoom sid) ''server:cardCreated'' (CardObj p)] \<and>
        p ''location'' =
          (case cardData ''location'' of None \<Rightarrow> Some (JStr ''CreatedCardStorage'')
           | Some v \<Rightarrow> Some v) \<and>
        p ''slot_id'' = (case cardData ''slot_id'' of None \<Rightarrow> Some JNull | Some v \<Rightarrow> Some v) \<and>
        p ''is_active'' = cardData ''is_active''"
    by (simp add: createCard_index_out spread_lookup split: option.splits)
qed

theorem createCard_initial_state_witness:
  "sage ''location'' = None \<and> sage ''slot_id'' = None \<and> sage ''is_active'' = None \<and>
   player_cards (fst (createCard (fst alice_joined) 100 1 ''alice'' sage)) =
     [\<lparr>pc_player_card_id = 1, pc_user_id = 1, pc_card_id = 1, pc_session_id = 1,
       pc_location = ''CreatedCardStorage'', pc_slot_id = None, pc_is_active = False\<rparr>] \<and>
   player_cards sage_db =
     [\<lparr>pc_player_card_id = 1, pc_user_id = 1, pc_card_id = 1, pc_session_id = 1,
       pc_location = ''CreatedCardStorage'', pc_slot_id = None, pc_is_active = False\<rparr>] \<and>
   card_payload_field (snd (createCard (fst alice_joined) 100 1 ''alice'' sage)) ''location'' =
     Some (JStr ''CreatedCardStorage'') \<and>
   card_payload_field (snd (createCard (fst alice_joined) 100 1 ''alice'' sage)) ''slot_id'' =
     Some JNull \<and>
   card_payload_field (snd (createCard (fst alice_joined) 100 1 ''alice'' sage)) ''is_active'' =
     Some (JBool False) \<and>
   card_payload_field (snd (createCard_index (fst alice_joined) 100 1 ''alice'' sage)) ''location'' =
     Some (JStr ''CreatedCardStorage'') \<and>
   card_payload_field (snd (createCard_index (fst alice_joined) 100 1 ''alice'' sage)) ''slot_id'' =
     Some JNull"
proof -
  have h: "sage ''location'' = None" "sage ''slot_id'' = None" "sage ''is_active'' = None"
    by (simp_all add: sage_def)
  have before: "player_cards (fst alice_joined) = []" "next_player_card_id (fst alice_joined) = 1"
    "next_card_id (fst alice_joined) = 1" "fst (resolve_user (fst alice_joined) ''alice'') = 1"
    by (simp_all add: alice_joined_db resolve_user_def)
  from createCard_initial_state [of "fst alice_joined" 100 1 "''alice''" sage] h before
  show ?thesis
    by (auto simp: card_payload_field_def get_prop_def sage_db_def)
qed

text \<open>
  The payload of Alice's request: her card data has \<open>is_active = true\<close>, one of the
  five common fields, and the payload carries that value while the persisted instance
  is inactive. In \<open>src/server/index.js\<close> a card data without \<open>is_active\<close> gives a
  payload without it.
\<close>

theorem createCard_payload_active_counterexample:
  "fire_bolt ''is_active'' = Some (JBool True) \<and>
   card_payload_field (snd alice_created) ''is_active'' = Some (JBool True) \<and>
   map pc_is_active (player_cards (fst alice_created)) = [False] \<and>
   sage ''is_active'' = None \<and>
   card_payload_field (snd (createCard_index (fst alice_joined) 100 1 ''alice'' sage)) ''is_active'' =
     Some JUndefined \<and>
   map pc_is_active (player_cards sage_db) = [False]"
  by (simp add: alice_created_def createCard_out createCard_index_out createCard_player_cards
        card_payload_field_def get_prop_def fire_bolt_def sage_def alice_joined_db
        sage_db_player_cards)

section \<open>Unknown usernames\<close>

lemma lookup_user_unknown:
  assumes "\<forall>u\<in>set (users d). u_username u \<noteq> userId"
  shows "lookup_user d userId = None"
proof -
  from assms have "filter (\<lambda>u. u_username u = userId) (users d) = []"
    by (simp add: filter_empty_conv)
  then show ?thesis by (simp add: lookup_user_def)
qed

lemma resolve_user_unknown:
  assumes "\<forall>u\<in>set (users d). u_username u \<noteq> userId"
  shows "resolve_user d userId =
           (next_user_id d,
            d\<lparr>users := users d @ [\<lparr>u_user_id = next_user_id d, u_username = userId\<rparr>],
              next_user_id := Suc (next_user_id d)\<rparr>)"
proof -
  from assms have "filter (\<lambda>u. u_username u = userId) (users d) = []"
    by (simp add: filter_empty_conv)
  then show ?thesis by (simp add: resolve_user_def)
qed

lemma resolve_session_users [simp]:
  "users (snd (resolve_session d u name)) = users d"
  by (simp add: resolve_session_def split: list.splits)

lemma joinGame_users:
  "users (fst (joinGame d rs sock name userId)) = users (snd (resolve_user d userId))"
  by (simp add: joinGame_def Let_def case_prod_beta)

lemma createCard_users:
  "users (fst (createCard d now sid userId cardData)) = users (snd (resolve_user d userId))"
  by (simp add: createCard_def insert_card_def insert_player_card_def insert_log_def Let_def
        split: prod.splits)

lemma joinGame_player_session:
  "fst (resolve_user d userId) \<in> ps_user_id ` set (player_sessions (fst (joinGame d rs sock name userId)))"
proof -
  let ?u = "fst (resolve_user d userId)" and ?d1 = "snd (resolve_user d userId)"
  let ?sid = "fst (resolve_session ?d1 ?u name)" and ?d2 = "snd (resolve_session ?d1 ?u name)"
  let ?found = "filter (\<lambda>p. ps_user_id p = ?u \<and> ps_session_id p = ?sid) (player_sessions ?d2)"
  show ?thesis
  proof (cases "?found = []")
    case True
    then show ?thesis by (simp add: joinGame_def Let_def case_prod_beta)
  next
    case False
    then obtain p where "p \<in> set (player_sessions ?d2)" "ps_user_id p = ?u"
      by (auto simp: filter_empty_conv)
    with False show ?thesis
      by (auto simp: joinGame_def Let_def case_prod_beta intro!: image_eqI [where x = p])
  qed
qed

text \<open>
  Claim C5, as the handlers have it. For a username with no \<open>users\<close> row, join-game
  and create-card insert one row with the generated id, use that id and emit their
  normal events; move-card and play-card-action reject the request with an \<open>error\<close>
  event to the caller and leave the store, the \<open>users\<close> table included, as it was.
\<close>

theorem unknown_user_handling:
  assumes "\<forall>u\<in>set (users d). u_username u \<noteq> userId"
  shows "users (fst (joinGame d rs sock name userId)) =
           users d @ [\<lparr>u_user_id = next_user_id d, u_username = userId\<rparr>] \<and>
         map event_name (snd (snd (joinGame d rs sock name userId))) =
           [''server:gameState'', ''server:playerJoined''] \<and>
         next_user_id d \<in> ps_user_id ` set (player_sessions (fst (joinGame d rs sock name userId))) \<and>
         users (fst (createCard d now sid userId cardData)) =
           users d @ [\<lparr>u_user_id = next_user_id d, u_username = userId\<rparr>] \<and>
         map event_name (snd (createCard d now sid userId cardData)) = [''server:cardCreated''] \<and>
         map pc_user_id (player_cards (fst (createCard d now sid userId cardData))) =
           map pc_user_id (player_cards d) @ [next_user_id d] \<and>
         (mv_userId mrq = userId \<longrightarrow>
            moveCard d now sock mrq =
              (d, [Emit (ToSocket sock) ''error''
                     (ErrorMsg ''User not authenticated for card move.'')])) \<and>
         (pl_userId prq = userId \<longrightarrow>
            playCardAction d now sock prq =
              (d, [Emit (ToSocket sock) ''error''
                     (ErrorMsg ''User not authenticated for playing card.'')]))"
proof -
  note r = resolve_user_unknown [OF assms] and l = lookup_user_unknown [OF assms]
  have j1: "users (fst (joinGame d rs sock name userId)) =
           users d @ [\<lparr>u_user_id = next_user_id d, u_username = userId\<rparr>]"
    by (simp add: joinGame_users r)
  have j2: "map event_name (snd (snd (joinGame d rs sock name userId))) =
           [''server:gameState'', ''server:playerJoined'']"
    by (simp add: joinGame_out Let_def)
  have j3: "next_user_id d \<in> ps_user_id ` set (player_sessions (fst (joinGame d rs sock name userId)))"
    using joinGame_player_session [of d userId rs sock name] by (simp add: r)
  have c1: "users (fst (createCard d now sid userId cardData)) =
           users d @ [\<lparr>u_user_id = next_user_id d, u_username = userId\<rparr>]"
    by (simp add: createCard_users r)
  have c2: "map event_name (snd (createCard d now sid userId cardData)) = [''server:cardCreated'']"
    by (simp add: createCard_out)
  have c3: "map pc_user_id (player_cards (fst (createCard d now sid userId cardData))) =
           map pc_user_id (player_cards d) @ [next_user_id d]"
    by (simp add: createCard_player_cards r)
  have m: "mv_userId mrq = userId \<longrightarrow>
            moveCard d now sock mrq =
              (d, [Emit (ToSocket sock) ''error''
                     (ErrorMsg ''User not authenticated for card move.'')])"
    by (simp add: moveCard_def l)
  have p: "pl_userId prq = userId \<longrightarrow>
            playCardAction d now sock prq =
              (d, [Emit (ToSocket sock) ''error''
                     (ErrorMsg ''User not authenticated for playing card.'')])"
    by (simp add: playCardAction_def l)
  from j1 j2 j3 c1 c2 c3 m p show ?thesis by (intro conjI)
qed

theorem unknown_user_handling_witness:
  "map u_username (users arena_db) = [''alice'', ''bob''] \<and>
   map u_username (users (fst (joinGame arena_db arena_rooms 12 ''arena1'' ''carol''))) =
     [''alice'', ''bob'', ''carol''] \<and>
   map u_username (users (fst (createCard arena_db 102 1 ''carol'' sage))) =
     [''alice'', ''bob'', ''carol''] \<and>
   map pc_user_id (player_cards (fst (createCard arena_db 102 1 ''carol'' sage))) = [1, 3] \<and>
   moveCard arena_db 102 12 carol_move =
     (arena_db, [Emit (ToSocket 12) ''error''
                   (ErrorMsg ''User not authenticated for card move.'')]) \<and>
   playCardAction arena_db 102 12 carol_play =
     (arena_db, [Emit (ToSocket 12) ''error''
                   (ErrorMsg ''User not authenticated for playing card.'')])"
proof -
  have h: "\<forall>u\<in>set (users arena_db). u_username u \<noteq> ''carol''"
    by (simp add: arena_db_rows)
  have names: "map u_username (users arena_db) = [''alice'', ''bob'']"
    and ids: "map pc_user_id (player_cards arena_db) = [1]" "next_user_id arena_db = 3"
    by (simp_all add: arena_db_rows)
  have rq: "mv_userId carol_move = ''carol''" "pl_userId carol_play = ''carol''"
    by (simp_all add: carol_move_def carol_play_def)
  from unknown_user_handling [OF h, of arena_rooms 12 "''arena1''" 102 1 sage carol_move carol_play]
    names ids rq
  show ?thesis by simp
qed

text \<open>
  Carol has no row: her move-card and play-card-action requests are answered with the
  error event and no row is inserted.
\<close>

theorem moveCard_unknown_user_counterexample:
  "lookup_user arena_db (mv_userId carol_move) = None \<and>
   moveCard arena_db 102 12 carol_move =
     (arena_db, [Emit (ToSocket 12) ''error''
                   (ErrorMsg ''User not authenticated for card move.'')]) \<and>
   playCardAction arena_db 102 12 carol_play =
     (arena_db, [Emit (ToSocket 12) ''error''
                   (ErrorMsg ''User not authenticated for playing card.'')])"
  by (simp add: moveCard_def playCardAction_def lookup_user_def carol_move_def alice_move_def
        carol_play_def alice_play_def arena_db_rows)

section \<open>Join-game: the instances of the snapshot\<close>

lemma sage_db_cards:
  "cards sage_db = [sage_row]"
  by (simp add: sage_db_def createCard_index_def alice_joined_db resolve_user_def
        insert_card_def insert_player_card_def insert_log_def card_insert_values_index_def
        cards_insert_columns_def common_columns_def optional_columns_def sage_def
        sage_row_def get_prop_def or_null_def Let_def)

lemma sage_db_sessions:
  "game_sessions sage_db =
     [\<lparr>s_session_id = 1, s_gm_user_id = 1, s_session_name = ''arena1''\<rparr>]"
  by (simp add: sage_db_def createCard_index_def alice_joined_db resolve_user_def
        insert_card_def insert_player_card_def insert_log_def Let_def split: prod.splits)

lemma snapshot_cards_of_join:
  "snapshot_card_field (snd (snd (joinGame d rs sock name user))) k =
     Some (map (\<lambda>r. get_prop (snapshot_card (joined_obj r)) k)
        (join_cards d
           (filter (\<lambda>pc. pc_session_id pc =
                fst (resolve_session (snd (resolve_user d user)) (fst (resolve_user d user)) name))
              (player_cards d))))"
  by (simp add: snapshot_card_field_def joinGame_snapshot build_game_state_def join_cards_def
        Let_def comp_def)

lemma snapshot_card_intellect:
  "get_prop (snapshot_card row) ''card_suit_intellect_modifier'' =
     get_prop row ''card_intellect_modifier''"
  by (simp add: snapshot_card_def get_prop_def)

lemma snapshot_card_might:
  "get_prop (snapshot_card row) ''card_suit_might_modifier'' =
     get_prop row ''card_suit_might_modifier''"
  by (simp add: snapshot_card_def get_prop_def)

lemma sage_join_session:
  "fst (resolve_session (snd (resolve_user sage_db ''bob''))
         (fst (resolve_user sage_db ''bob'')) ''arena1'') = 1"
  by (simp add: resolve_session_def sage_db_sessions)

text \<open>
  What the snapshot does carry: the first fifty definitions by ascending id, the
  session's log by ascending timestamp, one object for every instance of the session
  paired with its definition, and in that object every column of the definition under
  its own name but for the two misread ones.
\<close>

lemma snapshot_catalog:
  "\<exists>cs. gs_allCardDefinitions (build_game_state d sid name user) =
            map (card_definition_entry \<circ> card_obj) cs \<and>
        cs = take 50 (sort_key c_card_id (cards d)) \<and>
        length cs \<le> 50 \<and> sorted (map c_card_id cs) \<and> set cs \<subseteq> set (cards d)"
proof -
  have "sorted (map c_card_id (take 50 (sort_key c_card_id (cards d))))"
    by (simp add: take_map [symmetric] sorted_wrt_take)
  moreover have "set (take 50 (sort_key c_card_id (cards d))) \<subseteq> set (cards d)"
    using set_take_subset [of 50 "sort_key c_card_id (cards d)"] by simp
  ultimately show ?thesis
    by (simp add: build_game_state_def Let_def)
qed

lemma snapshot_log_ordered:
  "\<exists>ls. gs_combatLog (build_game_state d sid name user) = map (snapshot_log \<circ> log_obj) ls \<and>
        sorted (map l_action_timestamp ls) \<and>
        set ls = {l \<in> set (combat_log d). l_session_id l = sid} \<and>
        length ls = length (filter (\<lambda>l. l_session_id l = sid) (combat_log d))"
proof (intro exI conjI)
  let ?ls = "sort_key l_action_timestamp (filter (\<lambda>l. l_session_id l = sid) (combat_log d))"
  show "gs_combatLog (build_game_state d sid name user) = map (snapshot_log \<circ> log_obj) ?ls"
    by (simp add: build_game_state_def Let_def)
  show "sorted (map l_action_timestamp ?ls)" by simp
  show "set ?ls = {l \<in> set (combat_log d). l_session_id l = sid}" by simp
  show "length ?ls = length (filter (\<lambda>l. l_session_id l = sid) (combat_log d))" by simp
qed

lemma snapshot_instances_complete:
  "\<exists>rows. gs_cards (build_game_state d sid name user) = map (snapshot_card \<circ> joined_obj) rows \<and>
        set rows = {(pc, c). pc \<in> set (player_cards d) \<and> pc_session_id pc = sid \<and>
                             c \<in> set (cards d) \<and> c_card_id c = pc_card_id pc}"
proof (intro exI conjI)
  let ?rows = "join_cards d (filter (\<lambda>pc. pc_session_id pc = sid) (player_cards d))"
  show "gs_cards (build_game_state d sid name user) = map (snapshot_card \<circ> joined_obj) ?rows"
    by (simp add: build_game_state_def Let_def)
  show "set ?rows = {(pc, c). pc \<in> set (player_cards d) \<and> pc_session_id pc = sid \<and>
                             c \<in> set (cards d) \<and> c_card_id c = pc_card_id pc}"
    by (auto simp: join_cards_def)
qed

lemma snapshot_card_columns:
  assumes "k \<in> set cards_insert_columns"
    and "k \<noteq> ''card_suit_intellect_modifier''" and "k \<noteq> ''card_suit_rally_modifier''"
  shows "get_prop (snapshot_card row) k = get_prop row k"
  using assms
  by (auto simp: snapshot_card_def get_prop_def cards_insert_columns_def common_columns_def
        optional_columns_def)

lemma snapshot_card_rally:
  "get_prop (snapshot_card row) ''card_suit_rally_modifier'' = get_prop row ''card_rally_modifier''"
  by (simp add: snapshot_card_def get_prop_def)

lemma joined_obj_column:
  assumes "map_of (c_cols c) k = Some v" and "k \<noteq> ''card_id''"
  shows "get_prop (joined_obj (pc, c)) k = v"
  using assms by (simp add: joined_obj_def card_obj_def get_prop_def map_add_def)

text \<open>
  Claim C3 at a stored suit card. The \<open>cards\<close> row holds
  \<open>card_suit_might_modifier = 1\<close> and \<open>card_suit_intellect_modifier = 2\<close>. The snapshot
  sent to a joiner carries the first, and \<open>undefined\<close> for the second: the handler
  reads it from the row under the name \<open>card_intellect_modifier\<close>, which no column has.
\<close>

theorem joinGame_snapshot_loses_intellect_modifier:
  "stored_column sage_db ''card_suit_might_modifier'' = [Some (JNum 1)] \<and>
   stored_column sage_db ''card_suit_intellect_modifier'' = [Some (JNum 2)] \<and>
   snapshot_card_field (snd (snd (joinGame sage_db (fst (snd alice_joined)) 11 ''arena1'' ''bob'')))
     ''card_suit_might_modifier'' = Some [JNum 1] \<and>
   snapshot_card_field (snd (snd (joinGame sage_db (fst (snd alice_joined)) 11 ''arena1'' ''bob'')))
     ''card_suit_intellect_modifier'' = Some [JUndefined]"
proof -
  have stored: "stored_column sage_db ''card_suit_might_modifier'' = [Some (JNum 1)]"
    "stored_column sage_db ''card_suit_intellect_modifier'' = [Some (JNum 2)]"
    by (simp_all add: stored_column_def sage_db_cards card_column_def sage_row_def)
  have rows: "join_cards sage_db (filter (\<lambda>pc. pc_session_id pc = Suc 0) (player_cards sage_db)) =
      [(hd (player_cards sage_db), sage_row)]"
    by (simp add: join_cards_def sage_db_player_cards sage_db_cards sage_row_def)
  have might: "get_prop (joined_obj (pc, sage_row)) ''card_suit_might_modifier'' = JNum 1" for pc
    by (simp add: joined_obj_def card_obj_def sage_row_def get_prop_def map_add_def)
  have intellect: "get_prop (joined_obj (pc, sage_row)) ''card_intellect_modifier'' = JUndefined" for pc
    by (simp add: joined_obj_def card_obj_def player_card_obj_def sage_row_def get_prop_def
          map_add_def)
  have snap: "snapshot_card_field
        (snd (snd (joinGame sage_db (fst (snd alice_joined)) 11 ''arena1'' ''bob'')))
        ''card_suit_might_modifier'' = Some [JNum 1]"
    "snapshot_card_field
        (snd (snd (joinGame sage_db (fst (snd alice_joined)) 11 ''arena1'' ''bob'')))
        ''card_suit_intellect_modifier'' = Some [JUndefined]"
    by (simp_all add: snapshot_cards_of_join sage_join_session rows snapshot_card_intellect
          snapshot_card_might might intellect)
  from stored snap show ?thesis by (intro conjI)
qed

section \<open>Create-card: the optional columns\<close>

text \<open>
  Every optional column stores the supplied value, as the store keeps it, when it is
  truthy and NULL otherwise.
  The handler of \<open>src/server/index.js\<close> does so for all twenty columns, the handler
  of the full server file for eighteen; its two remaining columns take another key's
  value.
\<close>

lemma or_null_cases:
  "truthy v \<Longrightarrow> or_null v = v"
  "\<not> truthy v \<Longrightarrow> or_null v = JNull"
  by (simp_all add: or_null_def)

lemma sql_param_or_null:
  "sql_param (or_null v) = (if truthy v then sql_param v else JNull)"
  by (simp add: or_null_def)

lemma createCard_index_optional_columns:
  assumes "k \<in> set optional_columns"
  shows "card_column (last (cards (fst (createCard_index d now sid userId cardData)))) k =
           Some (sql_param (or_null (get_prop cardData k)))"
  using assms
  by (auto simp: createCard_index_cards card_column_def cards_insert_columns_def
        common_columns_def optional_columns_def card_insert_values_index_def)

lemma createCard_optional_columns:
  assumes "k \<in> set optional_columns"
    and "k \<noteq> ''card_suit_intellect_modifier''" and "k \<noteq> ''card_suit_rally_modifier''"
  shows "card_column (last (cards (fst (createCard d now sid userId cardData)))) k =
           Some (sql_param (or_null (get_prop cardData k)))"
  using assms
  by (auto simp: createCard_cards card_column_def cards_insert_columns_def
        common_columns_def optional_columns_def card_insert_values_def)

lemma createCard_misread_columns:
  "card_column (last (cards (fst (createCard d now sid userId cardData))))
     ''card_suit_intellect_modifier'' =
       Some (sql_param (or_null (get_prop cardData ''card_intellect_modifier'')))"
  "card_column (last (cards (fst (createCard d now sid userId cardData))))
     ''card_suit_rally_modifier'' =
       Some (sql_param (or_null (get_prop cardData ''card_rally_modifier'')))"
  by (simp_all add: createCard_cards card_column_def cards_insert_columns_def
        common_columns_def optional_columns_def card_insert_values_def)

text \<open>
  Claim C10 at a suit card with \<open>card_suit_intellect_modifier = 2\<close>. The handler of the
  full server file stores NULL in that column, reading \<open>cardData.card_intellect_modifier\<close>;
  the handler of \<open>src/server/index.js\<close> stores 2.
\<close>

theorem createCard_loses_intellect_modifier:
  "sage ''card_suit_intellect_modifier'' = Some (JNum 2) \<and>
   stored_column (fst (createCard (fst alice_joined) 100 1 ''alice'' sage))
     ''card_suit_intellect_modifier'' = [Some JNull] \<and>
   stored_column (fst (createCard_index (fst alice_joined) 100 1 ''alice'' sage))
     ''card_suit_intellect_modifier'' = [Some (JNum 2)]"
  by (simp add: stored_column_def card_column_def createCard_def createCard_index_def
        alice_joined_db resolve_user_def insert_card_def insert_player_card_def insert_log_def
        card_insert_values_def card_insert_values_index_def cards_insert_columns_def
        common_columns_def optional_columns_def sage_def get_prop_def or_null_def Let_def)

end
